theory Spec2Isabelle
  imports Complex_Main "HOL-Library.Sublist" "HOL-Library.Char_ord"
begin

section \<open>JavaScript values as far as server.js uses them\<close>

text \<open>
  Everything the handlers of server.js read from a request body, from the LLM's reply
  (through JSON.parse) or from the analysis service is a JSON value. A JavaScript string
  is a list of code units; the model keeps the code units below 256 (\<open>char\<close>). A number
  is kept as the rational its literal denotes: the handlers only copy numbers and test
  them against zero. An object is the list of its members in insertion order; a later
  member with the same key overrides an earlier one, as in an object literal, an object
  spread and JSON.parse.
\<close>

datatype json =
    JNull
  | JBool bool
  | JNum rat
  | JStr string
  | JArr "json list"
  | JObj "(string \<times> json) list"

text \<open>What a handler can throw. \<open>TransportError\<close> stands for a rejected promise of
  axios, the Groq SDK, cloudinary or mongoose; \<open>ENOENT\<close> for an fs call on a path where
  there is no file; \<open>EPERM\<close> for an \<open>unlinkSync\<close> that the file system refuses on a
  file that is there; \<open>CastError\<close> for a value that mongoose cannot cast to the type of
  its path.\<close>

datatype error =
  TypeError | SyntaxError | TransportError | ENOENT | EPERM | CastError | AppError

text \<open>\<open>v.k\<close>: reading a property of null throws; a property that is not there is
  \<open>undefined\<close> (\<open>None\<close>). None of the names the handlers read is a property of an
  array, a string, a number or a boolean.\<close>

fun getprop :: "json \<Rightarrow> string \<Rightarrow> error + json option" where
  "getprop JNull k = Inl TypeError"
| "getprop (JObj kvs) k = Inr (map_of (rev kvs) k)"
| "getprop v k = Inr None"

text \<open>\<open>v?.k\<close>: optional chaining on a value that may be undefined or null.\<close>

fun optprop :: "json option \<Rightarrow> string \<Rightarrow> json option" where
  "optprop None k = None"
| "optprop (Some JNull) k = None"
| "optprop (Some (JObj kvs)) k = map_of (rev kvs) k"
| "optprop (Some v) k = None"

text \<open>ToBoolean.\<close>

fun truthy :: "json option \<Rightarrow> bool" where
  "truthy None = False"
| "truthy (Some JNull) = False"
| "truthy (Some (JBool b)) = b"
| "truthy (Some (JNum n)) = (n \<noteq> 0)"
| "truthy (Some (JStr s)) = (s \<noteq> [])"
| "truthy (Some (JArr xs)) = True"
| "truthy (Some (JObj kvs)) = True"

text \<open>\<open>x || d\<close> where \<open>d\<close> is a JSON value.\<close>

definition orElse :: "json option \<Rightarrow> json \<Rightarrow> json" where
  "orElse x d = (if truthy x then the x else d)"

fun isArray :: "json option \<Rightarrow> bool" where
  "isArray (Some (JArr xs)) = True"
| "isArray x = False"

fun isNumber :: "json option \<Rightarrow> bool" where
  "isNumber (Some (JNum n)) = True"
| "isNumber x = False"

section \<open>Locating the JSON text in a model reply\<close>

text \<open>
  The regular expression \<^verbatim>\<open>/```\s*(?:json)?\s*\n?([\s\S]+?)\n?```/\<close> of server.js, as the
  backtracking matcher that JavaScript runs: the start positions from left to right, at
  each one the alternatives of every quantifier in its priority order (greedy: longest
  first, lazy: shortest first), the first success wins. The result is capture group 1.
\<close>

definition isSpace :: "char \<Rightarrow> bool" where
  "isSpace c = (of_char c \<in> {9, 10, 11, 12, 13, 32, 160 :: nat})"

definition closes :: "string \<Rightarrow> bool" where
  "closes r = (prefix ''```'' r \<or> prefix (CHR 0x0A # ''```'') r)"

text \<open>\<^verbatim>\<open>([\s\S]+?)\n?```\<close>: the shortest non-empty text that the closing fence follows.\<close>

fun lazyBody :: "string \<Rightarrow> string option" where
  "lazyBody [] = None"
| "lazyBody (c # r) =
     (if closes r then Some [c]
      else (case lazyBody r of None \<Rightarrow> None | Some m \<Rightarrow> Some (c # m)))"

text \<open>\<^verbatim>\<open>\n?\<close> before the group: first with the line feed, then without.\<close>

definition optNl :: "string \<Rightarrow> string option" where
  "optNl s =
     (case s of
        [] \<Rightarrow> lazyBody s
      | c # r \<Rightarrow>
          if c = CHR 0x0A
          then (case lazyBody r of Some m \<Rightarrow> Some m | None \<Rightarrow> lazyBody s)
          else lazyBody s)"

text \<open>\<^verbatim>\<open>\s*\<close> followed by the continuation \<open>k\<close>: one more space first, giving it back
  when the rest fails.\<close>

fun spaceStar :: "(string \<Rightarrow> string option) \<Rightarrow> string \<Rightarrow> string option" where
  "spaceStar k [] = k []"
| "spaceStar k (c # r) =
     (if isSpace c
      then (case spaceStar k r of Some m \<Rightarrow> Some m | None \<Rightarrow> k (c # r))
      else k (c # r))"

text \<open>\<^verbatim>\<open>(?:json)?\<close> followed by the continuation \<open>k\<close>.\<close>

definition optJson :: "(string \<Rightarrow> string option) \<Rightarrow> string \<Rightarrow> string option" where
  "optJson k s =
     (if prefix ''json'' s
      then (case k (drop 4 s) of Some m \<Rightarrow> Some m | None \<Rightarrow> k s)
      else k s)"

text \<open>The rest of the pattern, right after an opening fence.\<close>

definition fenceAt :: "string \<Rightarrow> string option" where
  "fenceAt s = spaceStar (optJson (spaceStar optNl)) s"

text \<open>\<open>content.match(...)\<close>: \<open>None\<close> is JavaScript's null, \<open>Some m\<close> is a match whose
  group 1 is \<open>m\<close>.\<close>

fun fencedMatch :: "string \<Rightarrow> string option" where
  "fencedMatch [] = None"
| "fencedMatch (c # r) =
     (if prefix ''```'' (c # r)
      then (case fenceAt (drop 3 (c # r)) of Some m \<Rightarrow> Some m | None \<Rightarrow> fencedMatch r)
      else fencedMatch r)"

text \<open>\<open>indexOf\<close> and \<open>lastIndexOf\<close> of one character; -1 when it is not there.\<close>

fun indexOf :: "string \<Rightarrow> char \<Rightarrow> int" where
  "indexOf [] x = -1"
| "indexOf (c # r) x =
     (if c = x then 0 else (let i = indexOf r x in if i = -1 then -1 else i + 1))"

fun lastIndexOf :: "string \<Rightarrow> char \<Rightarrow> int" where
  "lastIndexOf [] x = -1"
| "lastIndexOf (c # r) x =
     (let i = lastIndexOf r x in if i \<noteq> -1 then i + 1 else if c = x then 0 else -1)"

text \<open>\<open>s.slice(a, b)\<close> for 0 \<le> a: the only way the handlers call it.\<close>

definition slice :: "string \<Rightarrow> int \<Rightarrow> int \<Rightarrow> string" where
  "slice s a b = take (nat (b - a)) (drop (nat a) s)"

text \<open>The extraction of the soft-skills, resume (twice) and marks handlers
  (lines 568-578, 923-934, 1016-1027, 1222-1233).\<close>

definition jsonContent :: "string \<Rightarrow> string" where
  "jsonContent content =
     (case fencedMatch content of
        Some m \<Rightarrow> m
      | None \<Rightarrow>
          (let jsonStart = indexOf content (CHR ''{'');
               jsonEnd = lastIndexOf content (CHR ''}'') + 1
           in if jsonStart \<noteq> -1 \<and> jsonEnd > jsonStart
              then slice content jsonStart jsonEnd
              else content))"

text \<open>The extraction of the profile handler (lines 779-780): the match, or the pair
  \<open>[null, content]\<close> in its place.\<close>

definition jsonContentProfile :: "string \<Rightarrow> string" where
  "jsonContentProfile content =
     (case fencedMatch content of Some m \<Rightarrow> m | None \<Rightarrow> content)"

section \<open>JSON.parse\<close>

text \<open>
  JSON.parse is the platform's. The handlers below take it as a parameter
  \<open>parse\<close> (\<open>None\<close>: it throws a SyntaxError), so what is proved of them holds for
  whatever JSON.parse does. \<open>JSON_parse\<close> is the JSON grammar of ECMA-404, used where a
  handler is run on a concrete reply. A \<^verbatim>\<open>\uXXXX\<close> escape of a code unit above 255 is
  outside the strings of this model and is refused. The recursion is on fuel, and
  \<open>JSON_parse\<close> gives more fuel than the text has characters.
\<close>

definition isDigit :: "char \<Rightarrow> bool" where
  "isDigit c = (CHR ''0'' \<le> c \<and> c \<le> CHR ''9'')"

definition digitVal :: "char \<Rightarrow> nat" where
  "digitVal c = of_char c - 48"

definition digitsVal :: "string \<Rightarrow> nat" where
  "digitsVal ds = foldl (\<lambda>acc c. acc * 10 + digitVal c) 0 ds"

definition hexVal :: "char \<Rightarrow> nat option" where
  "hexVal c =
     (if isDigit c then Some (digitVal c)
      else if CHR ''a'' \<le> c \<and> c \<le> CHR ''f'' then Some (of_char c - 87)
      else if CHR ''A'' \<le> c \<and> c \<le> CHR ''F'' then Some (of_char c - 55)
      else None)"

definition isJsonWs :: "char \<Rightarrow> bool" where
  "isJsonWs c = (of_char c \<in> {9, 10, 13, 32 :: nat})"

definition skipWs :: "string \<Rightarrow> string" where
  "skipWs s = dropWhile isJsonWs s"

definition unescape :: "char \<Rightarrow> char option" where
  "unescape e =
     (if e = CHR 0x22 then Some (CHR 0x22)
      else if e = CHR 0x5C then Some (CHR 0x5C)
      else if e = CHR ''/'' then Some (CHR ''/'')
      else if e = CHR ''b'' then Some (CHR 0x08)
      else if e = CHR ''f'' then Some (CHR 0x0C)
      else if e = CHR ''n'' then Some (CHR 0x0A)
      else if e = CHR ''r'' then Some (CHR 0x0D)
      else if e = CHR ''t'' then Some (CHR 0x09)
      else None)"

definition hex4 :: "string \<Rightarrow> nat option" where
  "hex4 s =
     (case map hexVal (take 4 s) of
        [Some a, Some b, Some c, Some d] \<Rightarrow> Some (((a * 16 + b) * 16 + c) * 16 + d)
      | _ \<Rightarrow> None)"

text \<open>The characters of a string literal after its opening quote, and the rest.\<close>

fun parseString :: "string \<Rightarrow> (string \<times> string) option" where
  "parseString [] = None"
| "parseString (c # r) =
     (if c = CHR 0x22 then Some ([], r)
      else if c = CHR 0x5C then
        (case r of
           [] \<Rightarrow> None
         | e # r' \<Rightarrow>
             if e = CHR ''u'' then
               (case hex4 r' of
                  None \<Rightarrow> None
                | Some n \<Rightarrow>
                    if n < 256
                    then map_option (apfst ((#) (char_of n))) (parseString (drop 4 r'))
                    else None)
             else
               (case unescape e of
                  None \<Rightarrow> None
                | Some ch \<Rightarrow> map_option (apfst ((#) ch)) (parseString r')))
      else if (of_char c :: nat) < 32 then None
      else map_option (apfst ((#) c)) (parseString r))"

text \<open>A number literal: \<^verbatim>\<open>-? (0 | [1-9][0-9]*) (. [0-9]+)? ([eE] [+-]? [0-9]+)?\<close>.\<close>

definition parseExp :: "string \<Rightarrow> (int \<times> string) option" where
  "parseExp s =
     (case s of
        [] \<Rightarrow> Some (0, s)
      | c # r \<Rightarrow>
          if c = CHR ''e'' \<or> c = CHR ''E'' then
            (let neg = (r \<noteq> [] \<and> hd r = CHR ''-'');
                 r' = (if r \<noteq> [] \<and> (hd r = CHR ''-'' \<or> hd r = CHR ''+'') then tl r else r);
                 ds = takeWhile isDigit r'
             in if ds = [] then None
                else Some ((if neg then - int (digitsVal ds) else int (digitsVal ds)),
                           dropWhile isDigit r'))
          else Some (0, s))"

definition parseFrac :: "string \<Rightarrow> (rat \<times> string) option" where
  "parseFrac s =
     (case s of
        [] \<Rightarrow> Some (0, s)
      | c # r \<Rightarrow>
          if c = CHR ''.'' then
            (let ds = takeWhile isDigit r
             in if ds = [] then None
                else Some (of_nat (digitsVal ds) / of_nat (10 ^ length ds), dropWhile isDigit r))
          else Some (0, s))"

definition parseNumber :: "string \<Rightarrow> (rat \<times> string) option" where
  "parseNumber s =
     (let neg = (s \<noteq> [] \<and> hd s = CHR ''-'');
          r = (if neg then tl s else s);
          ds = (if r \<noteq> [] \<and> hd r = CHR ''0'' then ''0'' else takeWhile isDigit r)
      in if ds = [] then None
         else
           (case parseFrac (drop (length ds) r) of
              None \<Rightarrow> None
            | Some (f, r1) \<Rightarrow>
                (case parseExp r1 of
                   None \<Rightarrow> None
                 | Some (e, r2) \<Rightarrow>
                     (let m = of_nat (digitsVal ds) + f;
                          x = (if 0 \<le> e then m * of_nat (10 ^ nat e)
                               else m / of_nat (10 ^ nat (- e)))
                      in Some ((if neg then - x else x), r2)))))"

fun parseValue :: "nat \<Rightarrow> string \<Rightarrow> (json \<times> string) option"
  and parseElements :: "nat \<Rightarrow> string \<Rightarrow> (json list \<times> string) option"
  and parseMembers :: "nat \<Rightarrow> string \<Rightarrow> ((string \<times> json) list \<times> string) option"
where
  "parseValue 0 s = None"
| "parseValue (Suc n) s =
     (case skipWs s of
        [] \<Rightarrow> None
      | c # r \<Rightarrow>
          if c = CHR ''{'' then
            (case skipWs r of
               [] \<Rightarrow> None
             | d # r' \<Rightarrow>
                 if d = CHR ''}'' then Some (JObj [], r')
                 else map_option (apfst JObj) (parseMembers n r))
          else if c = CHR ''['' then
            (case skipWs r of
               [] \<Rightarrow> None
             | d # r' \<Rightarrow>
                 if d = CHR '']'' then Some (JArr [], r')
                 else map_option (apfst JArr) (parseElements n r))
          else if c = CHR 0x22 then map_option (apfst JStr) (parseString r)
          else if prefix ''true'' (c # r) then Some (JBool True, drop 4 (c # r))
          else if prefix ''false'' (c # r) then Some (JBool False, drop 5 (c # r))
          else if prefix ''null'' (c # r) then Some (JNull, drop 4 (c # r))
          else map_option (apfst JNum) (parseNumber (c # r)))"
| "parseElements 0 s = None"
| "parseElements (Suc n) s =
     (case parseValue n s of
        None \<Rightarrow> None
      | Some (v, r) \<Rightarrow>
          (case skipWs r of
             [] \<Rightarrow> None
           | d # r' \<Rightarrow>
               if d = CHR '','' then map_option (apfst ((#) v)) (parseElements n r')
               else if d = CHR '']'' then Some ([v], r')
               else None))"
| "parseMembers 0 s = None"
| "parseMembers (Suc n) s =
     (case skipWs s of
        [] \<Rightarrow> None
      | q # r \<Rightarrow>
          if q \<noteq> CHR 0x22 then None
          else
            (case parseString r of
               None \<Rightarrow> None
             | Some (k, r1) \<Rightarrow>
                 (case skipWs r1 of
                    [] \<Rightarrow> None
                  | col # r2 \<Rightarrow>
                      if col \<noteq> CHR '':'' then None
                      else
                        (case parseValue n r2 of
                           None \<Rightarrow> None
                         | Some (v, r3) \<Rightarrow>
                             (case skipWs r3 of
                                [] \<Rightarrow> None
                              | d # r4 \<Rightarrow>
                                  if d = CHR '','' then
                                    map_option (apfst ((#) (k, v))) (parseMembers n r4)
                                  else if d = CHR ''}'' then Some ([(k, v)], r4)
                                  else None)))))"

definition JSON_parse :: "string \<Rightarrow> json option" where
  "JSON_parse s =
     (case parseValue (Suc (length s)) s of
        None \<Rightarrow> None
      | Some (v, r) \<Rightarrow> if skipWs r = [] then Some v else None)"

section \<open>Requests, responses and what a handler calls\<close>

record response =
  status :: nat
  body :: json

text \<open>The calls a handler makes out of the process, in the order it makes them.\<close>

datatype call =
    CallGroq
  | CallAppPyHealth
  | CallAppPyUpload
  | CallCloudinary
  | CallFindById
  | CallFindOne
  | CallSave

text \<open>The outcome of \<open>groq.chat.completions.create\<close>: the promise rejects, or it
  resolves and \<open>choices[0]?.message?.content\<close> is a string or is missing.\<close>

datatype groqOutcome = GroqFails | GroqReplies "string option"

text \<open>\<open>choices[0]?.message?.content || d\<close>.\<close>

definition contentOr :: "string option \<Rightarrow> string \<Rightarrow> string" where
  "contentOr c d = (case c of None \<Rightarrow> d | Some s \<Rightarrow> if s = [] then d else s)"

text \<open>The text of \<open>error.message\<close> is the platform's; the model keeps which error
  it was.\<close>

fun message :: "error \<Rightarrow> string" where
  "message TypeError = ''TypeError''"
| "message SyntaxError = ''SyntaxError''"
| "message TransportError = ''TransportError''"
| "message ENOENT = ''ENOENT''"
| "message EPERM = ''EPERM''"
| "message CastError = ''CastError''"
| "message AppError = ''Error''"

text \<open>An object literal whose member expressions may throw: they are evaluated in
  order and the first error is the literal's.\<close>

fun members :: "(string \<times> (error + json)) list \<Rightarrow> error + (string \<times> json) list" where
  "members [] = Inr []"
| "members ((k, Inl e) # r) = Inl e"
| "members ((k, Inr v) # r) =
     (case members r of Inl e \<Rightarrow> Inl e | Inr kvs \<Rightarrow> Inr ((k, v) # kvs))"

definition objectLit :: "(string \<times> (error + json)) list \<Rightarrow> error + json" where
  "objectLit ms = (case members ms of Inl e \<Rightarrow> Inl e | Inr kvs \<Rightarrow> Inr (JObj kvs))"

text \<open>\<open>a.k || d\<close>.\<close>

definition propOr :: "json \<Rightarrow> string \<Rightarrow> json \<Rightarrow> error + json" where
  "propOr a k d = (case getprop a k of Inl e \<Rightarrow> Inl e | Inr x \<Rightarrow> Inr (orElse x d))"

text \<open>\<open>Array.isArray(a.k) ? a.k : d\<close>.\<close>

definition propArrayOr :: "json \<Rightarrow> string \<Rightarrow> json \<Rightarrow> error + json" where
  "propArrayOr a k d =
     (case getprop a k of Inl e \<Rightarrow> Inl e | Inr x \<Rightarrow> Inr (if isArray x then the x else d))"

text \<open>\<open>array.map(f)\<close> with the index, for an \<open>f\<close> that may throw.\<close>

fun mapIndexed :: "(json \<Rightarrow> nat \<Rightarrow> error + json) \<Rightarrow> nat \<Rightarrow> json list \<Rightarrow> error + json list" where
  "mapIndexed f i [] = Inr []"
| "mapIndexed f i (x # xs) =
     (case f x i of
        Inl e \<Rightarrow> Inl e
      | Inr y \<Rightarrow> (case mapIndexed f (Suc i) xs of Inl e \<Rightarrow> Inl e | Inr ys \<Rightarrow> Inr (y # ys)))"

section \<open>The student collection\<close>

text \<open>A document of the Student model, as far as the handlers below read or write
  it: its id, its USN, the analyses two handlers attach to it, and the rest of its
  data as the JSON it was created from.\<close>

record student =
  sid :: string
  usn :: string
  doc :: json
  softSkillsAssessment :: "json option"
  analysis :: "json option"

type_synonym db = "student list"

definition findById :: "db \<Rightarrow> string \<Rightarrow> student option" where
  "findById d i = find (\<lambda>s. sid s = i) d"

definition findOneByUsn :: "db \<Rightarrow> string \<Rightarrow> student option" where
  "findOneByUsn d u = find (\<lambda>s. usn s = u) d"

text \<open>\<open>student.save()\<close> of a document that was read from the collection.\<close>

definition saveStudent :: "db \<Rightarrow> student \<Rightarrow> db" where
  "saveStudent d st = map (\<lambda>s. if sid s = sid st then st else s) d"

section \<open>POST /api/soft-skills/analyze (lines 501-661)\<close>

record question =
  question :: string
  category :: string
  skills :: "string list"

definition SOFT_SKILLS_QUESTIONS :: "question list" where
  "SOFT_SKILLS_QUESTIONS =
     [\<lparr>question = ''Describe a challenging project you worked on and how you overcame the obstacles. What did you learn from this experience?'',
       category = ''Problem Solving & Resilience'',
       skills = [''problem_solving'', ''resilience'', ''learning_agility'']\<rparr>,
      \<lparr>question = ''Tell me about a time when you had to work with a difficult team member or in a challenging team environment. How did you handle the situation?'',
       category = ''Communication & Teamwork'',
       skills = [''communication'', ''teamwork'', ''conflict_resolution'']\<rparr>,
      \<lparr>question = ''Describe a situation where you had to learn a new technology or skill quickly to complete a task or project. What was your approach?'',
       category = ''Adaptability & Learning'',
       skills = [''adaptability'', ''learning_agility'', ''self_motivation'']\<rparr>,
      \<lparr>question = ''Give an example of when you had to take initiative or leadership in a project or situation, even when it wasn't formally assigned to you.'',
       category = ''Leadership & Initiative'',
       skills = [''leadership'', ''initiative'', ''responsibility'']\<rparr>,
      \<lparr>question = ''Describe a time when you received constructive feedback or criticism. How did you respond, and what changes did you make as a result?'',
       category = ''Growth Mindset & Professionalism'',
       skills = [''growth_mindset'', ''professionalism'', ''self_awareness'']\<rparr>]"

text \<open>The callback of \<open>responses.map\<close> (lines 514-520). \<open>SOFT_SKILLS_QUESTIONS[index]\<close>
  is undefined past the fifth question, and reading its property throws.\<close>

definition formatResponse :: "json \<Rightarrow> nat \<Rightarrow> error + json" where
  "formatResponse r index =
     (if index < length SOFT_SKILLS_QUESTIONS
      then (let q = SOFT_SKILLS_QUESTIONS ! index in
            objectLit
              [(''question'', Inr (JStr (question q))),
               (''category'', Inr (JStr (category q))),
               (''targetSkills'', Inr (JArr (map JStr (skills q)))),
               (''studentAnswer'', propOr r ''answer'' (JStr [])),
               (''questionId'', Inr (JNum (of_nat (index + 1))))])
      else Inl TypeError)"

text \<open>Lines 584-600: the object built from the parsed reply.\<close>

definition softSkillsNormalize :: "json \<Rightarrow> string \<Rightarrow> json \<Rightarrow> error + json" where
  "softSkillsNormalize analysisData now formattedResponses =
     objectLit
       [(''overallSoftSkillsScore'', propOr analysisData ''overallSoftSkillsScore'' (JNum 50)),
        (''skillBreakdown'', propOr analysisData ''skillBreakdown'' (JObj [])),
        (''strengths'', propOr analysisData ''strengths'' (JArr [])),
        (''areasForImprovement'', propOr analysisData ''areasForImprovement'' (JArr [])),
        (''developmentRecommendations'',
           propOr analysisData ''developmentRecommendations'' (JArr [])),
        (''personalityTraits'', propOr analysisData ''personalityTraits'' (JArr [])),
        (''careerFitness'', propOr analysisData ''careerFitness''
           (JObj [(''technicalRoles'', JNum 5), (''managementRoles'', JNum 5),
                  (''consultingRoles'', JNum 5), (''entrepreneurialRoles'', JNum 5)])),
        (''detailedAnalysis'', propOr analysisData ''detailedAnalysis''
           (JStr ''Analysis completed successfully.'')),
        (''assessmentDate'', Inr (JStr now)),
        (''responses'', Inr formattedResponses)]"

text \<open>Lines 605-630: the object of the catch block.\<close>

definition skillEntry :: "rat \<Rightarrow> json" where
  "skillEntry n =
     JObj [(''score'', JNum n),
           (''feedback'', JStr ''Assessment completed - detailed analysis available.'')]"

definition softSkillsFallback :: "string \<Rightarrow> json \<Rightarrow> json" where
  "softSkillsFallback now formattedResponses =
     JObj
       [(''overallSoftSkillsScore'', JNum 70),
        (''skillBreakdown'',
           JObj [(''communication'', skillEntry 7),
                 (''teamwork'', skillEntry 7),
                 (''problem_solving'', skillEntry 7),
                 (''leadership'', skillEntry 6),
                 (''adaptability'', skillEntry 7),
                 (''learning_agility'', skillEntry 8),
                 (''initiative'', skillEntry 6),
                 (''professionalism'', skillEntry 7)]),
        (''strengths'', JArr [JStr ''Completed comprehensive assessment'']),
        (''areasForImprovement'', JArr [JStr ''Continue developing professional skills'']),
        (''developmentRecommendations'',
           JArr [JStr ''Review detailed analysis for specific guidance'']),
        (''personalityTraits'', JArr [JStr ''Engaged'', JStr ''Thoughtful'']),
        (''careerFitness'',
           JObj [(''technicalRoles'', JNum 7), (''managementRoles'', JNum 6),
                 (''consultingRoles'', JNum 6), (''entrepreneurialRoles'', JNum 6)]),
        (''detailedAnalysis'', JStr ''Soft skills assessment completed. The student provided thoughtful responses to all questions, demonstrating engagement with the assessment process.''),
        (''assessmentDate'', JStr now),
        (''responses'', formattedResponses)]"

text \<open>Lines 580-631: the try block and its catch. A SyntaxError of JSON.parse and a
  TypeError of the property reads end in the same catch.\<close>

definition softSkillsData :: "(string \<Rightarrow> json option) \<Rightarrow> string \<Rightarrow> json \<Rightarrow> string \<Rightarrow> json" where
  "softSkillsData parse now formattedResponses jsonText =
     (case (case parse jsonText of
              None \<Rightarrow> Inl SyntaxError
            | Some a \<Rightarrow> softSkillsNormalize a now formattedResponses) of
        Inl e \<Rightarrow> softSkillsFallback now formattedResponses
      | Inr d \<Rightarrow> d)"

text \<open>Lines 633-644: the assessment is stored on the student when the request names
  one. \<open>findOk\<close> and \<open>saveOk\<close> say whether the two calls to the database resolve; a
  \<open>studentId\<close> that is not a string is a CastError of \<open>findById\<close>. Every error is
  caught and logged.\<close>

definition saveSoftSkills ::
  "bool \<Rightarrow> bool \<Rightarrow> db \<Rightarrow> json option \<Rightarrow> json \<Rightarrow> db \<times> call list" where
  "saveSoftSkills findOk saveOk d studentId analysisData =
     (if truthy studentId then
        (case studentId of
           Some (JStr i) \<Rightarrow>
             (if \<not> findOk then (d, [CallFindById])
              else
                (case findById d i of
                   None \<Rightarrow> (d, [CallFindById])
                 | Some st \<Rightarrow>
                     (if saveOk
                      then (saveStudent d (st\<lparr>softSkillsAssessment := Some analysisData\<rparr>),
                            [CallFindById, CallSave])
                      else (d, [CallFindById, CallSave]))))
         | _ \<Rightarrow> (d, [CallFindById]))
      else (d, []))"

definition softSkillsError :: "error \<Rightarrow> response" where
  "softSkillsError e =
     \<lparr>status = 500,
      body = JObj [(''success'', JBool False),
                   (''error'', JStr ''Error analyzing soft skills responses''),
                   (''details'', JStr (message e))]\<rparr>"

fun arrayElems :: "json option \<Rightarrow> json list" where
  "arrayElems (Some (JArr xs)) = xs"
| "arrayElems x = []"

definition softSkillsAnalyze ::
  "(string \<Rightarrow> json option) \<Rightarrow> string \<Rightarrow> groqOutcome \<Rightarrow> bool \<Rightarrow> bool \<Rightarrow> db \<Rightarrow> json
     \<Rightarrow> response \<times> db \<times> call list" where
  "softSkillsAnalyze parse now groq findOk saveOk d reqBody =
     (case getprop reqBody ''responses'' of
        Inl e \<Rightarrow> (softSkillsError e, d, [])
      | Inr responses \<Rightarrow>
     (case getprop reqBody ''studentId'' of
        Inl e \<Rightarrow> (softSkillsError e, d, [])
      | Inr studentId \<Rightarrow>
          if \<not> truthy responses \<or> \<not> isArray responses \<or> length (arrayElems responses) \<noteq> 5
          then (\<lparr>status = 400,
                 body = JObj [(''success'', JBool False),
                              (''error'', JStr ''All 5 question responses are required'')]\<rparr>,
                d, [])
          else
            (case mapIndexed formatResponse 0 (arrayElems responses) of
               Inl e \<Rightarrow> (softSkillsError e, d, [])
             | Inr formatted \<Rightarrow>
                 (case groq of
                    GroqFails \<Rightarrow> (softSkillsError TransportError, d, [CallGroq])
                  | GroqReplies c \<Rightarrow>
                      (let content = contentOr c [];
                           analysisData =
                             softSkillsData parse now (JArr formatted) (jsonContent content);
                           (d', dbCalls) = saveSoftSkills findOk saveOk d studentId analysisData
                       in (\<lparr>status = 200,
                            body = JObj [(''success'', JBool True),
                                         (''data'', analysisData),
                                         (''message'',
                                            JStr ''Soft skills assessment completed successfully'')]\<rparr>,
                           d', CallGroq # dbCalls))))))"

section \<open>The USN of a student (lines 391-463)\<close>

text \<open>\<open>toUpperCase\<close> and \<open>toLowerCase\<close> on the ASCII letters; a USN is letters and
  digits. What JavaScript does to a letter outside ASCII is outside the model.\<close>

definition toUpperChar :: "char \<Rightarrow> char" where
  "toUpperChar c =
     (if CHR ''a'' \<le> c \<and> c \<le> CHR ''z'' then char_of (of_char c - (32::nat)) else c)"

definition toUpperCase :: "string \<Rightarrow> string" where
  "toUpperCase s = map toUpperChar s"

definition toLowerChar :: "char \<Rightarrow> char" where
  "toLowerChar c =
     (if CHR ''A'' \<le> c \<and> c \<le> CHR ''Z'' then char_of (of_char c + (32::nat)) else c)"

definition toLowerCase :: "string \<Rightarrow> string" where
  "toLowerCase s = map toLowerChar s"

fun fieldsOf :: "json \<Rightarrow> (string \<times> json) list" where
  "fieldsOf (JObj kvs) = kvs"
| "fieldsOf v = []"

definition errorBody :: "string \<Rightarrow> json" where
  "errorBody msg = JObj [(''error'', JStr msg)]"

text \<open>
  mongoose is not part of server.js. What the three handlers below need of it and
  cannot be read off the schema of line 68 is a parameter, the record \<open>mongoose\<close>:
  \<^item> \<open>castOther\<close>: the string that the String cast makes of a boolean, a number, an
    array or an object; \<open>None\<close> when the cast throws a CastError;
  \<^item> \<open>messages\<close>: the messages of the ValidationError that the schema's rules raise
    for a request body; \<open>[]\<close> when they raise none;
  \<^item> \<open>validId\<close>: the id casts to an ObjectId;
  \<^item> \<open>toJSON\<close>: a document as \<open>res.json\<close> sends it (with the schema's defaults, the
    timestamps and the version key, which the model of a document leaves out).
\<close>

record mongoose =
  castOther :: "json \<Rightarrow> string option"
  messages :: "json \<Rightarrow> string list"
  validId :: "string \<Rightarrow> bool"
  toJSON :: "student \<Rightarrow> json"

text \<open>The String cast of the value given for \<open>usn\<close> (line 68: \<open>type: String\<close>), in
  a query and in a document: a string is kept, null and undefined stay no value.\<close>

definition castString :: "mongoose \<Rightarrow> json option \<Rightarrow> error + string option" where
  "castString m v =
     (case v of
        None \<Rightarrow> Inr None
      | Some JNull \<Rightarrow> Inr None
      | Some (JStr s) \<Rightarrow> Inr (Some s)
      | Some x \<Rightarrow> (case castOther m x of None \<Rightarrow> Inl CastError | Some s \<Rightarrow> Inr (Some s)))"

text \<open>\<open>b.k = v\<close> on the object \<open>b\<close>.\<close>

definition setprop :: "json \<Rightarrow> string \<Rightarrow> json \<Rightarrow> json" where
  "setprop b k v = (case b of JObj kvs \<Rightarrow> JObj (kvs @ [(k, v)]) | x \<Rightarrow> x)"

text \<open>\<open>if (b.usn) { b.usn = b.usn.toUpperCase() }\<close> on the request body (lines 409-411
  and 439-441). The body is whatever JSON the client sent. Only a string has a
  \<open>toUpperCase\<close>: on another truthy value the call throws.\<close>

definition normalizeUsn :: "json \<Rightarrow> error + json" where
  "normalizeUsn b =
     (case getprop b ''usn'' of
        Inl e \<Rightarrow> Inl e
      | Inr u \<Rightarrow>
          if truthy u
          then (case u of
                  Some (JStr s) \<Rightarrow> Inr (setprop b ''usn'' (JStr (toUpperCase s)))
                | _ \<Rightarrow> Inl TypeError)
          else Inr b)"

text \<open>GET /api/students/usn/:usn (lines 391-402). \<open>findOk\<close>: the query resolves.\<close>

definition getStudentByUsn :: "mongoose \<Rightarrow> bool \<Rightarrow> db \<Rightarrow> string \<Rightarrow> response" where
  "getStudentByUsn m findOk d u =
     (if \<not> findOk then \<lparr>status = 500, body = errorBody ''Error fetching student by USN''\<rparr>
      else
        (case findOneByUsn d (toUpperCase u) of
           None \<Rightarrow> \<lparr>status = 404, body = errorBody ''Student not found''\<rparr>
         | Some st \<Rightarrow> \<lparr>status = 200, body = toJSON m st\<rparr>))"

text \<open>The answer to a ValidationError (lines 427-429 and 457-459).\<close>

definition validationError :: "mongoose \<Rightarrow> json \<Rightarrow> response" where
  "validationError m b =
     \<lparr>status = 400,
      body = JObj [(''error'', JStr ''Validation error''),
                   (''details'', JArr (map JStr (messages m b)))]\<rparr>"

text \<open>POST /api/students (lines 404-434). \<open>newId\<close> is the id the driver gives the new
  document. \<open>findOk\<close>: the query of line 413 resolves; \<open>saveOk\<close>: the save of line 419
  does not reject for a reason that the model does not give (a lost connection). The
  query and the document cast the \<open>usn\<close> of the body to a string; a cast that throws in
  the query is answered by line 431. A second document with a stored USN is refused by
  the query of line 413. The \<open>required\<close> rule of line 68 refuses a missing and an empty
  USN; its message is among mongoose's.\<close>

definition createStudent ::
  "mongoose \<Rightarrow> string \<Rightarrow> bool \<Rightarrow> bool \<Rightarrow> db \<Rightarrow> json \<Rightarrow> response \<times> db" where
  "createStudent m newId findOk saveOk d reqBody =
     (case normalizeUsn reqBody of
        Inl e \<Rightarrow> (\<lparr>status = 500, body = errorBody ''Error creating student''\<rparr>, d)
      | Inr studentData \<Rightarrow>
          (case castString m (optprop (Some studentData) ''usn'') of
             Inl e \<Rightarrow> (\<lparr>status = 500, body = errorBody ''Error creating student''\<rparr>, d)
           | Inr u \<Rightarrow>
               if \<not> findOk
               then (\<lparr>status = 500, body = errorBody ''Error creating student''\<rparr>, d)
               else if (case u of None \<Rightarrow> False | Some s \<Rightarrow> findOneByUsn d s \<noteq> None)
               then (\<lparr>status = 400, body = errorBody ''Student with this USN already exists''\<rparr>, d)
               else
                 (case u of
                    None \<Rightarrow> (validationError m studentData, d)
                  | Some s \<Rightarrow>
                      if s = [] \<or> messages m studentData \<noteq> []
                      then (validationError m studentData, d)
                      else if \<not> saveOk
                      then (\<lparr>status = 500, body = errorBody ''Error creating student''\<rparr>, d)
                      else
                        (let newStudent =
                               \<lparr>sid = newId, usn = s, doc = studentData,
                                softSkillsAssessment = None, analysis = None\<rparr>
                         in (\<lparr>status = 201, body = toJSON m newStudent\<rparr>,
                             d @ [newStudent])))))"

text \<open>
  The paths that \<open>findByIdAndUpdate(id, update, ...)\<close> sets, for the two forms of an
  update that the model covers: the members of the operator \<open>$set\<close>, and the members of
  the update itself that are no operators, which mongoose takes as if they were under
  \<open>$set\<close> and which win over a member of \<open>$set\<close> with the same name. The other update
  operators are outside the model.
\<close>

definition isOperator :: "string \<Rightarrow> bool" where
  "isOperator k = (take 1 k = ''$'')"

definition updateFields :: "json \<Rightarrow> (string \<times> json) list" where
  "updateFields b =
     (case optprop (Some b) ''$set'' of None \<Rightarrow> [] | Some s \<Rightarrow> fieldsOf s)
     @ filter (\<lambda>kv. \<not> isOperator (fst kv)) (fieldsOf b)"

text \<open>PUT /api/students/:id (lines 436-463). \<open>dbOk\<close>: the update resolves unless the
  model below says why not. A value for \<open>usn\<close> that does not cast and an id that does
  not cast are both a CastError (line 454); a \<open>usn\<close> set to null or to the empty string
  fails the \<open>required\<close> rule, which \<open>runValidators\<close> switches on. The USN of another
  document is refused by the unique index (error 11000, which this handler answers
  with 500).\<close>

definition updateStudent ::
  "mongoose \<Rightarrow> bool \<Rightarrow> db \<Rightarrow> string \<Rightarrow> json \<Rightarrow> response \<times> db" where
  "updateStudent m dbOk d i reqBody0 =
     (case normalizeUsn reqBody0 of
        Inl e \<Rightarrow> (\<lparr>status = 500, body = errorBody ''Error updating student''\<rparr>, d)
      | Inr reqBody \<Rightarrow>
          (let fields = updateFields reqBody;
               v = map_of (rev fields) ''usn''
           in if \<not> validId m i
              then (\<lparr>status = 400, body = errorBody ''Invalid student ID format''\<rparr>, d)
              else
                (case castString m v of
                   Inl e \<Rightarrow> (\<lparr>status = 400, body = errorBody ''Invalid student ID format''\<rparr>, d)
                 | Inr u \<Rightarrow>
                     if (v \<noteq> None \<and> (u = None \<or> u = Some [])) \<or> messages m reqBody \<noteq> []
                     then (validationError m reqBody, d)
                     else if \<not> dbOk
                     then (\<lparr>status = 500, body = errorBody ''Error updating student''\<rparr>, d)
                     else
                       (case findById d i of
                          None \<Rightarrow> (\<lparr>status = 404, body = errorBody ''Student not found''\<rparr>, d)
                        | Some st \<Rightarrow>
                            if (case u of None \<Rightarrow> False
                                | Some s \<Rightarrow> find (\<lambda>x. sid x \<noteq> i \<and> usn x = s) d \<noteq> None)
                            then (\<lparr>status = 500, body = errorBody ''Error updating student''\<rparr>, d)
                            else
                              (let updatedStudent =
                                     st\<lparr>usn := (case u of None \<Rightarrow> usn st | Some s \<Rightarrow> s),
                                        doc := JObj (fieldsOf (doc st) @ fields)\<rparr>
                               in (\<lparr>status = 200, body = toJSON m updatedStudent\<rparr>,
                                   saveStudent d updatedStudent))))))"

section \<open>POST /api/students/usn/:usn/analyze (lines 705-809)\<close>

text \<open>Lines 785-794: the object built from the parsed reply.\<close>

definition profileNormalize :: "json \<Rightarrow> error + json" where
  "profileNormalize analysisData =
     objectLit
       [(''strengths'', propOr analysisData ''strengths'' (JArr [])),
        (''weaknesses'', propOr analysisData ''weaknesses'' (JArr [])),
        (''recommendations'', propOr analysisData ''recommendations'' (JArr [])),
        (''overallScore'', propOr analysisData ''overallScore'' (JNum 50)),
        (''skillGaps'', propOr analysisData ''skillGaps'' (JArr [])),
        (''careerSuggestions'', propOr analysisData ''careerSuggestions'' (JArr [])),
        (''learningPath'', propOr analysisData ''learningPath'' (JArr [])),
        (''detailedAnalysis'', propOr analysisData ''detailedAnalysis''
           (JStr ''Analysis completed successfully.''))]"

text \<open>The handler. The profile of lines 717-747 is read with \<open>?.\<close> and \<open>||\<close>, cannot
  throw, and only goes into the prompt; the reply of the LLM is the parameter \<open>groq\<close>.\<close>

definition analyzeStudent ::
  "(string \<Rightarrow> json option) \<Rightarrow> groqOutcome \<Rightarrow> bool \<Rightarrow> bool \<Rightarrow> db \<Rightarrow> string
     \<Rightarrow> response \<times> db \<times> call list" where
  "analyzeStudent parse groq findOk saveOk d u =
     (if \<not> findOk
      then (\<lparr>status = 500, body = errorBody ''Error analyzing student data''\<rparr>, d, [CallFindOne])
      else
        (case findOneByUsn d (toUpperCase u) of
           None \<Rightarrow> (\<lparr>status = 404, body = errorBody ''Student not found''\<rparr>, d, [CallFindOne])
         | Some st \<Rightarrow>
             (case groq of
                GroqFails \<Rightarrow>
                  (\<lparr>status = 500, body = errorBody ''Error analyzing student data''\<rparr>, d,
                   [CallFindOne, CallGroq])
              | GroqReplies c \<Rightarrow>
                  (let content = contentOr c [];
                       jsonText = jsonContentProfile content
                   in case (case parse jsonText of
                              None \<Rightarrow> Inl SyntaxError
                            | Some a \<Rightarrow> profileNormalize a) of
                        Inl e \<Rightarrow>
                          (\<lparr>status = 500, body = errorBody ''Error generating analysis''\<rparr>, d,
                           [CallFindOne, CallGroq])
                      | Inr completeAnalysis \<Rightarrow>
                          if saveOk
                          then (\<lparr>status = 200, body = completeAnalysis\<rparr>,
                                saveStudent d (st\<lparr>analysis := Some completeAnalysis\<rparr>),
                                [CallFindOne, CallGroq, CallSave])
                          else (\<lparr>status = 500, body = errorBody ''Error generating analysis''\<rparr>,
                                d, [CallFindOne, CallGroq, CallSave])))))"

section \<open>Uploaded files\<close>

text \<open>What multer hands to a handler as \<open>req.file\<close>, and the files of the upload
  directory: a map from a path to the file there. A file is its content and whether the
  file system lets it be removed while the request runs (its directory may be read-only,
  another process may hold it). \<open>readFileSync\<close> and \<open>unlinkSync\<close> throw when there is no
  file at the path; \<open>unlinkSync\<close> also throws on a file that cannot be removed, and
  leaves it.\<close>

record upload =
  path :: string
  originalname :: string
  size :: nat
  mimetype :: string

record fileEntry =
  bytes :: string
  removable :: bool

type_synonym files = "string \<rightharpoonup> fileEntry"

definition readFileSync :: "files \<Rightarrow> string \<Rightarrow> error + string" where
  "readFileSync f p = (case f p of None \<Rightarrow> Inl ENOENT | Some x \<Rightarrow> Inr (bytes x))"

definition unlinkSync :: "files \<Rightarrow> string \<Rightarrow> error + files" where
  "unlinkSync f p =
     (case f p of
        None \<Rightarrow> Inl ENOENT
      | Some x \<Rightarrow> if removable x then Inr (f(p := None)) else Inl EPERM)"

text \<open>\<open>try { fs.unlinkSync(p) } catch (e) { console.error(...) }\<close>.\<close>

definition tryUnlink :: "files \<Rightarrow> string \<Rightarrow> files" where
  "tryUnlink f p = (case unlinkSync f p of Inl e \<Rightarrow> f | Inr f' \<Rightarrow> f')"

text \<open>A member whose value may be undefined: \<open>res.json\<close> leaves it out.\<close>

definition optMember :: "string \<Rightarrow> json option \<Rightarrow> (string \<times> json) list" where
  "optMember k v = (case v of None \<Rightarrow> [] | Some x \<Rightarrow> [(k, x)])"

section \<open>POST /api/upload-photo (lines 812-839)\<close>

text \<open>\<open>cloud\<close> is the outcome of \<open>cloudinary.uploader.upload\<close>: \<open>None\<close> when it
  rejects. The try block gives its result and the files as they are when it ends.\<close>

definition photoTry :: "json option \<Rightarrow> files \<Rightarrow> upload \<Rightarrow> (error + response) \<times> files" where
  "photoTry cloud f fl =
     (case cloud of
        None \<Rightarrow> (Inl TransportError, f)
      | Some result \<Rightarrow>
          (case unlinkSync f (path fl) of
             Inl e \<Rightarrow> (Inl e, f)
           | Inr f1 \<Rightarrow>
               (case getprop result ''secure_url'' of
                  Inl e \<Rightarrow> (Inl e, f1)
                | Inr url \<Rightarrow> (Inr \<lparr>status = 200, body = JObj (optMember ''url'' url)\<rparr>, f1))))"

definition uploadPhoto :: "json option \<Rightarrow> files \<Rightarrow> upload option \<Rightarrow> response \<times> files \<times> call list" where
  "uploadPhoto cloud f file =
     (case file of
        None \<Rightarrow> (\<lparr>status = 400, body = errorBody ''No photo file uploaded''\<rparr>, f, [])
      | Some fl \<Rightarrow>
          (case photoTry cloud f fl of
             (Inr r, f1) \<Rightarrow> (r, f1, [CallCloudinary])
           | (Inl e, f1) \<Rightarrow>
               (\<lparr>status = 500, body = errorBody ''Error uploading photo''\<rparr>,
                tryUnlink f1 (path fl), [CallCloudinary])))"

section \<open>POST /api/analyze-resume (lines 843-1158)\<close>

definition item2 :: "string \<Rightarrow> string \<Rightarrow> string \<Rightarrow> string \<Rightarrow> json" where
  "item2 k1 v1 k2 v2 = JObj [(k1, JStr v1), (k2, JStr v2)]"

definition item3 :: "string \<Rightarrow> string \<Rightarrow> string \<Rightarrow> string \<Rightarrow> string \<Rightarrow> string \<Rightarrow> json" where
  "item3 k1 v1 k2 v2 k3 v3 = JObj [(k1, JStr v1), (k2, JStr v2), (k3, JStr v3)]"

text \<open>Lines 920-954: the structure read from the reply of the structuring call, and
  the object of its catch block.\<close>

definition resumeStaticStructure :: json where
  "resumeStaticStructure =
     JObj
       [(''skills'', JArr [JStr ''Resume uploaded successfully'']),
        (''projects'', JArr [item2 ''title'' ''Resume Analysis''
            ''description'' ''Analysis completed - check detailed analysis'']),
        (''experience'', JArr [item3 ''company'' ''Analysis completed''
            ''position'' ''See detailed analysis'' ''duration'' ''N/A'']),
        (''education'', JArr [item3 ''degree'' ''Analysis completed''
            ''institution'' ''See detailed analysis'' ''year'' ''N/A''])]"

definition resumeStructure :: "(string \<Rightarrow> json option) \<Rightarrow> string option \<Rightarrow> json" where
  "resumeStructure parse c =
     (case (case parse (jsonContent (contentOr c ''{}'')) of
              None \<Rightarrow> Inl SyntaxError
            | Some b \<Rightarrow>
                objectLit
                  [(''skills'', propArrayOr b ''skills'' (JArr [])),
                   (''projects'', propArrayOr b ''projects'' (JArr [])),
                   (''experience'', propArrayOr b ''experience'' (JArr [])),
                   (''education'', propArrayOr b ''education'' (JArr []))]) of
        Inl e \<Rightarrow> resumeStaticStructure
      | Inr b \<Rightarrow> b)"

text \<open>Lines 873-971: the analysis through app.py. \<open>appPy\<close> is the outcome of the
  POST to /upload-resume (\<open>None\<close>: axios rejects; otherwise \<open>response.data\<close>), \<open>groq1\<close>
  the outcome of the structuring call. \<open>None\<close> is returned when the catch of line 968
  is reached: \<open>analysisResult\<close> is still undefined and \<open>appPyAvailable\<close> false. A
  \<open>data.analysis\<close> that is not a string has no \<open>substring\<close>: the prompt of the
  structuring call throws before the call is made.\<close>

definition resumeAppPy ::
  "(string \<Rightarrow> json option) \<Rightarrow> json option \<Rightarrow> groqOutcome \<Rightarrow> files \<Rightarrow> upload
     \<Rightarrow> json option \<times> call list" where
  "resumeAppPy parse appPy groq1 f fl =
     (case readFileSync f (path fl) of
        Inl e \<Rightarrow> (None, [])
      | Inr fileBuffer \<Rightarrow>
          (case appPy of
             None \<Rightarrow> (None, [CallAppPyUpload])
           | Some data \<Rightarrow>
               (case getprop data ''success'' of
                  Inl e \<Rightarrow> (None, [CallAppPyUpload])
                | Inr success \<Rightarrow>
                    if truthy success then
                      (case optprop (Some data) ''analysis'' of
                         Some (JStr detailedAnalysis) \<Rightarrow>
                           (case groq1 of
                              GroqFails \<Rightarrow> (None, [CallAppPyUpload, CallGroq])
                            | GroqReplies c \<Rightarrow>
                                (Some (JObj (fieldsOf (resumeStructure parse c)
                                   @ [(''detailedAnalysis'', JStr detailedAnalysis),
                                      (''filename'', orElse (optprop (Some data) ''filename'')
                                                       (JStr (originalname fl))),
                                      (''extractedTextLength'',
                                         orElse (optprop (Some data) ''extracted_text_length'')
                                           (JNum 0)),
                                      (''source'', JStr ''app.py'')])),
                                 [CallAppPyUpload, CallGroq]))
                       | _ \<Rightarrow> (None, [CallAppPyUpload]))
                    else (None, [CallAppPyUpload]))))"

text \<open>\<open>path.extname\<close> of Node (POSIX): from the last dot of the last segment, empty
  when that segment has no dot but a leading one.\<close>

definition basename :: "string \<Rightarrow> string" where
  "basename p = rev (takeWhile (\<lambda>c. c \<noteq> CHR ''/'') (rev p))"

definition extname :: "string \<Rightarrow> string" where
  "extname p =
     (let b = basename p; e = rev (takeWhile (\<lambda>c. c \<noteq> CHR ''.'') (rev b))
      in if CHR ''.'' \<notin> set b \<or> length e + 1 = length b \<or> b = ''..'' then []
         else CHR ''.'' # e)"

text \<open>A number in a template literal.\<close>

function showNat :: "nat \<Rightarrow> string" where
  "showNat n =
     (if n < 10 then [char_of (48 + n)] else showNat (n div 10) @ [char_of (48 + n mod 10)])"
  by pat_completeness auto
termination
  by (relation "measure id") auto

text \<open>The three objects of the Groq-only tier (lines 1032-1105).\<close>

definition resumeGroqResult :: "json \<Rightarrow> upload \<Rightarrow> string \<Rightarrow> error + json" where
  "resumeGroqResult groqResult fl fileContent =
     objectLit
       [(''skills'', propArrayOr groqResult ''skills'' (JArr [JStr ''Resume analysis completed''])),
        (''projects'', propArrayOr groqResult ''projects''
           (JArr [item2 ''title'' ''Resume Uploaded''
              ''description'' ''Resume has been uploaded and is ready for review''])),
        (''experience'', propArrayOr groqResult ''experience''
           (JArr [item3 ''company'' ''Resume Uploaded''
              ''position'' ''Please review manually'' ''duration'' ''N/A''])),
        (''education'', propArrayOr groqResult ''education''
           (JArr [item3 ''degree'' ''Resume Uploaded''
              ''institution'' ''Please review manually'' ''year'' ''N/A''])),
        (''detailedAnalysis'', propOr groqResult ''detailedAnalysis''
           (JStr ''Resume uploaded successfully. Manual review recommended for detailed analysis.'')),
        (''filename'', Inr (JStr (originalname fl))),
        (''extractedTextLength'', Inr (JNum (of_nat (length fileContent)))),
        (''source'', Inr (JStr ''groq-fallback''))]"

definition resumeBasicFallback :: "upload \<Rightarrow> json" where
  "resumeBasicFallback fl =
     JObj
       [(''skills'', JArr [JStr ''Resume uploaded successfully'']),
        (''projects'', JArr [item2 ''title'' ''Resume Analysis''
           ''description'' ''Resume has been uploaded. Please review the file manually for detailed information.'']),
        (''experience'', JArr [item3 ''company'' ''Analysis pending''
           ''position'' ''Manual review required'' ''duration'' ''N/A'']),
        (''education'', JArr [item3 ''degree'' ''Analysis pending''
           ''institution'' ''Manual review required'' ''year'' ''N/A'']),
        (''detailedAnalysis'', JStr ''Resume uploaded successfully. The file is saved and can be reviewed manually. Automated analysis was not available.''),
        (''filename'', JStr (originalname fl)),
        (''extractedTextLength'', JNum 0),
        (''source'', JStr ''basic-fallback'')]"

definition resumeUploadOnly :: "upload \<Rightarrow> json" where
  "resumeUploadOnly fl =
     JObj
       [(''skills'', JArr [JStr ''Resume uploaded'']),
        (''projects'', JArr [item2 ''title'' ''Resume Upload''
           ''description'' ''Your resume has been uploaded successfully'']),
        (''experience'', JArr [item3 ''company'' ''Upload completed''
           ''position'' ''Ready for manual review'' ''duration'' ''N/A'']),
        (''education'', JArr [item3 ''degree'' ''Upload completed''
           ''institution'' ''Ready for manual review'' ''year'' ''N/A'']),
        (''detailedAnalysis'', JStr ''Resume uploaded successfully. File is available for manual review.''),
        (''filename'', JStr (originalname fl)),
        (''extractedTextLength'', JNum 0),
        (''source'', JStr ''upload-only'')]"

text \<open>Lines 975-1107: the Groq-only tier; \<open>groq2\<close> is the outcome of its call.\<close>

definition resumeGroqOnly ::
  "(string \<Rightarrow> json option) \<Rightarrow> groqOutcome \<Rightarrow> files \<Rightarrow> upload \<Rightarrow> json \<times> call list" where
  "resumeGroqOnly parse groq2 f fl =
     (case (if toLowerCase (extname (originalname fl)) = ''.txt''
            then readFileSync f (path fl)
            else Inr (''Resume file: '' @ originalname fl @ '' ('' @ showNat (size fl)
                      @ '' bytes)'')) of
        Inl e \<Rightarrow> (resumeUploadOnly fl, [])
      | Inr fileContent \<Rightarrow>
          (case groq2 of
             GroqFails \<Rightarrow> (resumeUploadOnly fl, [CallGroq])
           | GroqReplies c \<Rightarrow>
               (case (case parse (jsonContent (contentOr c ''{}'')) of
                        None \<Rightarrow> Inl SyntaxError
                      | Some groqResult \<Rightarrow> resumeGroqResult groqResult fl fileContent) of
                  Inl e \<Rightarrow> (resumeBasicFallback fl, [CallGroq])
                | Inr r \<Rightarrow> (r, [CallGroq]))))"

text \<open>
  The handler. \<open>health\<close> is the outcome of the GET to /health: \<open>None\<close> when axios
  rejects, otherwise the status of the response. Nothing between the guard of line 845
  and \<open>res.json\<close> of line 1118 throws outside an inner try block, so the catch of
  line 1120 with its error-fallback payload is never entered with a file.
\<close>

definition analyzeResume ::
  "(string \<Rightarrow> json option) \<Rightarrow> nat option \<Rightarrow> json option \<Rightarrow> groqOutcome \<Rightarrow> groqOutcome
     \<Rightarrow> files \<Rightarrow> upload option \<Rightarrow> response \<times> files \<times> call list" where
  "analyzeResume parse health appPy groq1 groq2 f file =
     (case file of
        None \<Rightarrow>
          (\<lparr>status = 400,
            body = JObj [(''error'', JStr ''No resume file uploaded''), (''success'', JBool False)]\<rparr>,
           f, [])
      | Some fl \<Rightarrow>
          (let appPyAvailable = (health = Some 200);
               (r1, calls1) =
                 (if appPyAvailable then resumeAppPy parse appPy groq1 f fl else (None, []));
               (analysisResult, calls2) =
                 (case r1 of
                    Some r \<Rightarrow> (r, [])
                  | None \<Rightarrow> resumeGroqOnly parse groq2 f fl)
           in (\<lparr>status = 200, body = analysisResult\<rparr>, tryUnlink f (path fl),
               CallAppPyHealth # calls1 @ calls2)))"

section \<open>POST /api/analyze-marks (lines 1161-1308)\<close>

text \<open>
  \<open>parseFloat\<close> and \<open>parseInt\<close> are the platform's, and the handler takes them as the
  parameters \<open>pf\<close> and \<open>pint\<close>: from a value that may be undefined to NaN, an infinity or
  a finite number. \<open>res.json\<close> writes NaN and the infinities as null.
\<close>

datatype parsedNumber = NaN | Infinite | Finite rat

text \<open>\<open>n || d\<close> for a parsed number, as \<open>res.json\<close> sends it.\<close>

fun numberOr :: "parsedNumber \<Rightarrow> json \<Rightarrow> json" where
  "numberOr NaN d = d"
| "numberOr Infinite d = JNull"
| "numberOr (Finite r) d = (if r = 0 then d else JNum r)"

text \<open>\<open>typeof a.k === 'number' ? a.k : parse(a.k) || d\<close> (lines 1240-1244).\<close>

definition propNumberOr :: "(json option \<Rightarrow> parsedNumber) \<Rightarrow> json \<Rightarrow> string \<Rightarrow> json \<Rightarrow> error + json" where
  "propNumberOr p a k d =
     (case getprop a k of
        Inl e \<Rightarrow> Inl e
      | Inr x \<Rightarrow> Inr (if isNumber x then the x else numberOr (p x) d))"

definition marksSubject :: "(json option \<Rightarrow> parsedNumber) \<Rightarrow> json \<Rightarrow> nat \<Rightarrow> error + json" where
  "marksSubject pf subject index =
     objectLit
       [(''name'', propOr subject ''name'' (JStr ''Unknown Subject'')),
        (''score'', propNumberOr pf subject ''score'' (JNum 0))]"

text \<open>Lines 1237-1245: the object built from the parsed reply.\<close>

definition marksNormalize ::
  "(json option \<Rightarrow> parsedNumber) \<Rightarrow> (json option \<Rightarrow> parsedNumber) \<Rightarrow> json \<Rightarrow> error + json" where
  "marksNormalize pf pint basicMarksData =
     objectLit
       [(''subjects'',
           (case getprop basicMarksData ''subjects'' of
              Inl e \<Rightarrow> Inl e
            | Inr x \<Rightarrow>
                if isArray x
                then (case mapIndexed (marksSubject pf) 0 (arrayElems x) of
                        Inl e \<Rightarrow> Inl e
                      | Inr ys \<Rightarrow> Inr (JArr ys))
                else Inr (JArr []))),
        (''totalPercentage'', propNumberOr pf basicMarksData ''totalPercentage'' JNull),
        (''cgpa'', propNumberOr pf basicMarksData ''cgpa'' JNull),
        (''semester'', propNumberOr pint basicMarksData ''semester'' JNull)]"

text \<open>The regular expression \<^verbatim>\<open>/GPA.*?(\d+\.?\d*)/i\<close> of line 1251: after the letters,
  the first digit that no line break precedes, then the digits, a dot and the digits
  that follow it. The result is capture group 1.\<close>

definition gpaNumber :: "string \<Rightarrow> string" where
  "gpaNumber s =
     (let ds = takeWhile isDigit s; r = dropWhile isDigit s
      in case r of
           [] \<Rightarrow> ds
         | c # r' \<Rightarrow> if c = CHR ''.'' then ds @ [c] @ takeWhile isDigit r' else ds)"

fun gpaDigits :: "string \<Rightarrow> string option" where
  "gpaDigits [] = None"
| "gpaDigits (c # r) =
     (if isDigit c then Some (gpaNumber (c # r))
      else if c = CHR 0x0A \<or> c = CHR 0x0D then None
      else gpaDigits r)"

fun gpaMatch :: "string \<Rightarrow> string option" where
  "gpaMatch [] = None"
| "gpaMatch (c # r) =
     (if toUpperCase (take 3 (c # r)) = ''GPA''
      then (case gpaDigits (drop 3 (c # r)) of Some m \<Rightarrow> Some m | None \<Rightarrow> gpaMatch r)
      else gpaMatch r)"

text \<open>Lines 1250-1261: the object of the catch block.\<close>

fun numberJson :: "parsedNumber \<Rightarrow> json" where
  "numberJson (Finite r) = JNum r"
| "numberJson n = JNull"

fun times10 :: "parsedNumber \<Rightarrow> json" where
  "times10 NaN = JNull"
| "times10 Infinite = JNull"
| "times10 (Finite r) = (if r = 0 then JNull else JNum (r * 10))"

definition marksFallback :: "(json option \<Rightarrow> parsedNumber) \<Rightarrow> string \<Rightarrow> json" where
  "marksFallback pf detailedAnalysis =
     (let extractedGPA =
            (case gpaMatch detailedAnalysis of
               None \<Rightarrow> None
             | Some m \<Rightarrow> Some (pf (Some (JStr m))))
      in JObj
           [(''subjects'', JArr [JObj [(''name'', JStr ''Analysis completed''), (''score'', JNum 0)]]),
            (''totalPercentage'', (case extractedGPA of None \<Rightarrow> JNull | Some g \<Rightarrow> times10 g)),
            (''cgpa'', (case extractedGPA of None \<Rightarrow> JNull | Some g \<Rightarrow> numberJson g)),
            (''semester'', JNull)])"

text \<open>Lines 1190-1281, after the uploaded file is deleted: the result of the rest of
  the try block. In the catch of line 1247 a \<open>data.analysis\<close> that is not a string has
  no \<open>match\<close>, and the TypeError leaves the try block.\<close>

definition marksAfterUpload ::
  "(string \<Rightarrow> json option) \<Rightarrow> (json option \<Rightarrow> parsedNumber) \<Rightarrow> (json option \<Rightarrow> parsedNumber)
     \<Rightarrow> json \<Rightarrow> groqOutcome \<Rightarrow> (error + response) \<times> call list" where
  "marksAfterUpload parse pf pint data groq =
     (case getprop data ''success'' of
        Inl e \<Rightarrow> (Inl e, [])
      | Inr success \<Rightarrow>
          if truthy success then
            (let detailedAnalysis = optprop (Some data) ''analysis'' in
             case groq of
               GroqFails \<Rightarrow> (Inl TransportError, [CallGroq])
             | GroqReplies c \<Rightarrow>
                 (case (case (case parse (jsonContent (contentOr c [])) of
                                None \<Rightarrow> Inl SyntaxError
                              | Some b \<Rightarrow> marksNormalize pf pint b) of
                          Inr b \<Rightarrow> Inr b
                        | Inl e \<Rightarrow>
                            (case detailedAnalysis of
                               Some (JStr t) \<Rightarrow> Inr (marksFallback pf t)
                             | _ \<Rightarrow> Inl TypeError)) of
                    Inl e \<Rightarrow> (Inl e, [CallGroq])
                  | Inr basicMarksData \<Rightarrow>
                      (Inr \<lparr>status = 200,
                            body = JObj
                              [(''success'', JBool True),
                               (''data'', JObj (fieldsOf basicMarksData
                                  @ optMember ''detailedAnalysis'' detailedAnalysis
                                  @ optMember ''filename'' (optprop (Some data) ''filename'')
                                  @ optMember ''extractedTextLength''
                                      (optprop (Some data) ''extracted_text_length''))),
                               (''nextEnabled'', JBool True),
                               (''message'', JStr ''Marks sheet analyzed successfully'')]\<rparr>,
                       [CallGroq])))
          else (Inl AppError, []))"

text \<open>The response of the catch of line 1283.\<close>

definition marksError :: response where
  "marksError =
     \<lparr>status = 200,
      body = JObj
        [(''success'', JBool False),
         (''error'', JStr ''Error analyzing marks''),
         (''nextEnabled'', JBool True),
         (''data'', JObj [(''subjects'', JArr []), (''totalPercentage'', JNull),
                          (''cgpa'', JNull), (''semester'', JNull),
                          (''detailedAnalysis'', JNull)]),
         (''message'', JStr ''There was an error analyzing your marks, but you can continue to the next step.'')]\<rparr>"

text \<open>The handler; \<open>appPy\<close> is the outcome of the POST to /upload-marks-card.\<close>

definition analyzeMarks ::
  "(string \<Rightarrow> json option) \<Rightarrow> (json option \<Rightarrow> parsedNumber) \<Rightarrow> (json option \<Rightarrow> parsedNumber)
     \<Rightarrow> json option \<Rightarrow> groqOutcome \<Rightarrow> files \<Rightarrow> upload option
     \<Rightarrow> response \<times> files \<times> call list" where
  "analyzeMarks parse pf pint appPy groq f file =
     (case file of
        None \<Rightarrow>
          (\<lparr>status = 400,
            body = JObj [(''error'', JStr ''No marksheet file uploaded''),
                         (''success'', JBool False)]\<rparr>,
           f, [])
      | Some fl \<Rightarrow>
          (case readFileSync f (path fl) of
             Inl e \<Rightarrow> (marksError, tryUnlink f (path fl), [])
           | Inr fileBuffer \<Rightarrow>
               (case appPy of
                  None \<Rightarrow> (marksError, tryUnlink f (path fl), [CallAppPyUpload])
                | Some data \<Rightarrow>
                    (case unlinkSync f (path fl) of
                       Inl e \<Rightarrow> (marksError, tryUnlink f (path fl), [CallAppPyUpload])
                     | Inr f1 \<Rightarrow>
                         (case marksAfterUpload parse pf pint data groq of
                            (Inl e, calls) \<Rightarrow>
                              (marksError, tryUnlink f1 (path fl), CallAppPyUpload # calls)
                          | (Inr r, calls) \<Rightarrow> (r, f1, CallAppPyUpload # calls))))))"

section \<open>Vocabulary of the properties\<close>

text \<open>The members of an object that are there, and those that are there and truthy.\<close>

definition hasMembers :: "json \<Rightarrow> string list \<Rightarrow> bool" where
  "hasMembers v ks = list_all (\<lambda>k. optprop (Some v) k \<noteq> None) ks"

definition populated :: "json \<Rightarrow> string list \<Rightarrow> bool" where
  "populated v ks = list_all (\<lambda>k. truthy (optprop (Some v) k)) ks"

text \<open>The provenance tag of a payload.\<close>

definition sourceOf :: "json \<Rightarrow> json option" where
  "sourceOf v = optprop (Some v) ''source''"


text \<open>The members that the object literals of the handlers declare.\<close>

definition softSkillsKeys :: "string list" where
  "softSkillsKeys = [''overallSoftSkillsScore'', ''skillBreakdown'', ''strengths'',
     ''areasForImprovement'', ''developmentRecommendations'', ''personalityTraits'',
     ''careerFitness'', ''detailedAnalysis'']"

definition skillNames :: "string list" where
  "skillNames = [''communication'', ''teamwork'', ''problem_solving'', ''leadership'',
     ''adaptability'', ''learning_agility'', ''initiative'', ''professionalism'']"


definition resumeKeys :: "string list" where
  "resumeKeys = [''skills'', ''projects'', ''experience'', ''education'', ''detailedAnalysis'',
                 ''filename'', ''extractedTextLength'', ''source'']"

definition marksKeys :: "string list" where
  "marksKeys = [''subjects'', ''totalPercentage'', ''cgpa'', ''semester'']"

text \<open>The extracted text cannot be used: JSON.parse throws, or it gives null and the
  first property read of the normalization throws.\<close>

definition parseFails :: "(string \<Rightarrow> json option) \<Rightarrow> string \<Rightarrow> bool" where
  "parseFails parse jsonText = (parse jsonText = None \<or> parse jsonText = Some JNull)"

text \<open>The resume handler gets as far as the structuring call of its app.py tier: the
  staged file can be read, app.py answers, its answer reports success and carries the
  analysis as a string.\<close>

definition appPyTierReached :: "json option \<Rightarrow> files \<Rightarrow> upload \<Rightarrow> bool" where
  "appPyTierReached appPy f fl =
     (f (path fl) \<noteq> None \<and>
      (case appPy of
         None \<Rightarrow> False
       | Some data \<Rightarrow>
           data \<noteq> JNull \<and> truthy (optprop (Some data) ''success'') \<and>
           (case optprop (Some data) ''analysis'' of Some (JStr t) \<Rightarrow> True | _ \<Rightarrow> False)))"

text \<open>\<open>formattedResponses\<close> of line 514 for the responses of a request.\<close>

definition formattedResponses :: "json list \<Rightarrow> json" where
  "formattedResponses xs =
     (case mapIndexed formatResponse 0 xs of Inl e \<Rightarrow> JArr [] | Inr ys \<Rightarrow> JArr ys)"

text \<open>A JSON text in a fenced block, the form the prompts of the handlers provoke and
  the regular expression looks for.\<close>

definition fence :: "string \<Rightarrow> string" where
  "fence s = ''```json'' @ [CHR 0x0A] @ s @ [CHR 0x0A] @ ''```''"

text \<open>An uppercase USN.\<close>

definition isUpperCase :: "string \<Rightarrow> bool" where
  "isUpperCase s = (toUpperCase s = s)"

text \<open>Concrete requests and outcomes for the examples below.\<close>

definition exampleUpload :: upload where
  "exampleUpload = \<lparr>path = ''uploads/1700000000000-cv.pdf'', originalname = ''cv.pdf'',
                     size = 8, mimetype = ''application/pdf''\<rparr>"

definition exampleFiles :: files where
  "exampleFiles =
     [''uploads/1700000000000-cv.pdf'' \<mapsto> \<lparr>bytes = ''%PDF-1.4'', removable = True\<rparr>]"

text \<open>The same directory when the file system refuses to remove the file.\<close>

definition heldFiles :: files where
  "heldFiles =
     [''uploads/1700000000000-cv.pdf'' \<mapsto> \<lparr>bytes = ''%PDF-1.4'', removable = False\<rparr>]"

definition exampleAnswers :: json where
  "exampleAnswers = JObj [(''responses'',
     JArr [JObj [(''answer'', JStr ''We rebuilt the parser.'')],
           JObj [(''answer'', JStr ''I listened first.'')],
           JObj [(''answer'', JStr ''I read the manual.'')],
           JObj [(''answer'', JStr ''I organised the demo.'')],
           JObj [(''answer'', JStr ''I rewrote the report.'')]])]"

definition exampleAnalysis :: json where
  "exampleAnalysis = JObj [(''success'', JBool True), (''analysis'', JStr ''A strong resume. GPA 8.5'')]"


definition exampleStudents :: db where
  "exampleStudents = [\<lparr>sid = ''65f0c0ffee0123456789abcd'', usn = ''1RV20CS001'',
                        doc = JObj [(''name'', JStr ''Asha'')],
                        softSkillsAssessment = None, analysis = None\<rparr>]"

text \<open>What the handlers take from mongoose, as far as the examples below ask for it:
  the String cast makes \<open>true\<close> and \<open>false\<close> of a boolean (the examples give it no other
  value that is not a string), their bodies pass the schema's other rules, their ids
  are well-formed, and a document is sent as its members, its id and its USN.\<close>

definition exampleMongoose :: mongoose where
  "exampleMongoose =
     \<lparr>castOther = (\<lambda>v. case v of JBool b \<Rightarrow> Some (if b then ''true'' else ''false'')
                          | _ \<Rightarrow> None),
      messages = (\<lambda>b. []),
      validId = (\<lambda>i. True),
      toJSON = (\<lambda>st. JObj (fieldsOf (doc st)
                           @ [(''_id'', JStr (sid st)), (''usn'', JStr (usn st))]))\<rparr>"

section \<open>Reading properties\<close>

lemma getprop_nonnull: "v \<noteq> JNull \<Longrightarrow> \<exists>x. getprop v k = Inr x"
  by (cases v) simp_all

lemma getprop_optprop: "v \<noteq> JNull \<Longrightarrow> getprop v k = Inr (optprop (Some v) k)"
  by (cases v) simp_all

lemma isArray_iff: "isArray x \<longleftrightarrow> (\<exists>xs. x = Some (JArr xs))"
  by (cases x rule: isArray.cases) simp_all

section \<open>The soft-skills handler validates before it calls\<close>

lemma softSkills_rejects:
  assumes nn: "reqBody \<noteq> JNull"
    and bad: "\<forall>xs. getprop reqBody ''responses'' = Inr (Some (JArr xs)) \<longrightarrow> length xs \<noteq> 5"
  shows "softSkillsAnalyze parse now groq findOk saveOk d reqBody =
           (\<lparr>status = 400,
             body = JObj [(''success'', JBool False),
                          (''error'', JStr ''All 5 question responses are required'')]\<rparr>, d, [])"
proof -
  obtain r where r: "getprop reqBody ''responses'' = Inr r"
    using getprop_nonnull [OF nn] by blast
  obtain i where i: "getprop reqBody ''studentId'' = Inr i"
    using getprop_nonnull [OF nn] by blast
  have "\<not> truthy r \<or> \<not> isArray r \<or> length (arrayElems r) \<noteq> 5"
  proof (cases "isArray r")
    case True
    then obtain xs where "r = Some (JArr xs)" by (auto simp: isArray_iff)
    with bad r show ?thesis by simp
  qed simp
  then show ?thesis
    unfolding softSkillsAnalyze_def by (simp add: r i)
qed

lemma softSkills_accepts:
  assumes ok: "getprop reqBody ''responses'' = Inr (Some (JArr xs))" and len: "length xs = 5"
  shows "status (fst (softSkillsAnalyze parse now groq findOk saveOk d reqBody)) \<noteq> 400"
proof -
  have nn: "reqBody \<noteq> JNull" using ok by auto
  obtain i where i: "getprop reqBody ''studentId'' = Inr i"
    using getprop_nonnull [OF nn] by blast
  show ?thesis
    unfolding softSkillsAnalyze_def
    by (simp add: ok i len softSkillsError_def Let_def
          split: sum.split groqOutcome.split prod.split)
qed

text \<open>
  C7. The soft-skills handler requires exactly five responses. For every request body
  (an object or an array, as express.json gives it) whose \<open>responses\<close> member is
  missing, is not an array or has another length than five, the handler answers 400 with
  its validation message, calls nothing outside the process (no LLM, no database) and
  leaves the collection as it was. A body with an array of five responses is never
  answered with 400.
\<close>

theorem softSkills_requires_five_responses:
  assumes "reqBody \<noteq> JNull"
  shows "if \<exists>xs. getprop reqBody ''responses'' = Inr (Some (JArr xs)) \<and> length xs = 5
         then status (fst (softSkillsAnalyze parse now groq findOk saveOk d reqBody)) \<noteq> 400
         else softSkillsAnalyze parse now groq findOk saveOk d reqBody =
                (\<lparr>status = 400,
                  body = JObj [(''success'', JBool False),
                               (''error'', JStr ''All 5 question responses are required'')]\<rparr>,
                 d, [])"
proof (cases "\<exists>xs. getprop reqBody ''responses'' = Inr (Some (JArr xs)) \<and> length xs = 5")
  case True
  then show ?thesis using softSkills_accepts by auto
next
  case False
  then have "\<forall>xs. getprop reqBody ''responses'' = Inr (Some (JArr xs)) \<longrightarrow> length xs \<noteq> 5"
    by blast
  from softSkills_rejects [OF assms this] False show ?thesis by simp
qed

text \<open>Four responses and six responses, with an LLM that would answer, are refused;
  five responses are not.\<close>

theorem softSkills_requires_five_responses_witness:
  "softSkillsAnalyze JSON_parse ''2025-01-01T00:00:00.000Z'' (GroqReplies (Some ''{}'')) True True []
     (JObj [(''responses'', JArr [JObj [], JObj [], JObj [], JObj []])]) =
     (\<lparr>status = 400,
       body = JObj [(''success'', JBool False),
                    (''error'', JStr ''All 5 question responses are required'')]\<rparr>, [], [])
   \<and> softSkillsAnalyze JSON_parse ''2025-01-01T00:00:00.000Z'' (GroqReplies (Some ''{}'')) True True []
     (JObj [(''responses'', JArr [JObj [], JObj [], JObj [], JObj [], JObj [], JObj []])]) =
     (\<lparr>status = 400,
       body = JObj [(''success'', JBool False),
                    (''error'', JStr ''All 5 question responses are required'')]\<rparr>, [], [])
   \<and> status (fst (softSkillsAnalyze JSON_parse ''2025-01-01T00:00:00.000Z''
         (GroqReplies (Some ''{}'')) True True []
         (JObj [(''responses'', JArr [JObj [], JObj [], JObj [], JObj [], JObj []])]))) \<noteq> 400"
  using softSkills_requires_five_responses
          [of "JObj [(''responses'', JArr [JObj [], JObj [], JObj [], JObj []])]"
              JSON_parse "''2025-01-01T00:00:00.000Z''" "GroqReplies (Some ''{}'')" True True "[]"]
        softSkills_requires_five_responses
          [of "JObj [(''responses'', JArr [JObj [], JObj [], JObj [], JObj [], JObj [], JObj []])]"
              JSON_parse "''2025-01-01T00:00:00.000Z''" "GroqReplies (Some ''{}'')" True True "[]"]
        softSkills_requires_five_responses
          [of "JObj [(''responses'', JArr [JObj [], JObj [], JObj [], JObj [], JObj []])]"
              JSON_parse "''2025-01-01T00:00:00.000Z''" "GroqReplies (Some ''{}'')" True True "[]"]
  by simp

section \<open>An uploaded file and the end of its request\<close>

text \<open>Every path of the three handlers that take an uploaded file ends after an
  \<open>unlinkSync\<close> of the staged path: the one of lines 823 and 1188 on the way, or the
  guarded one of a catch block (lines 829-835, 1110-1115 and 1286-1292). What is left
  when the handler has answered is what one guarded \<open>unlinkSync\<close> leaves.\<close>

lemma tryUnlink_at:
  "tryUnlink f p p = (case f p of None \<Rightarrow> None | Some x \<Rightarrow> if removable x then None else Some x)"
  by (simp add: tryUnlink_def unlinkSync_def split: option.split)

lemma tryUnlink_elsewhere: "q \<noteq> p \<Longrightarrow> tryUnlink f p q = f q"
  by (simp add: tryUnlink_def unlinkSync_def split: option.split)

lemma unlinkSync_Inl: "unlinkSync f p = Inl e \<Longrightarrow> tryUnlink f p = f"
  by (simp add: tryUnlink_def)

lemma unlinkSync_Inr: "unlinkSync f p = Inr f1 \<Longrightarrow> tryUnlink f p = f1 \<and> tryUnlink f1 p = f1"
  by (auto simp: tryUnlink_def unlinkSync_def split: option.splits if_splits)

lemma photo_unlinks: "fst (snd (uploadPhoto cloud f (Some fl))) = tryUnlink f (path fl)"
proof (cases cloud)
  case None
  then show ?thesis by (simp add: uploadPhoto_def photoTry_def)
next
  case (Some result)
  show ?thesis
  proof (cases "unlinkSync f (path fl)")
    case (Inl e)
    then show ?thesis by (simp add: uploadPhoto_def photoTry_def Some unlinkSync_Inl)
  next
    case (Inr f1)
    then show ?thesis
      by (cases "getprop result ''secure_url''")
         (simp_all add: uploadPhoto_def photoTry_def Some unlinkSync_Inr)
  qed
qed

lemma resume_unlinks:
  "fst (snd (analyzeResume parse health appPy groqS groqF f (Some fl))) = tryUnlink f (path fl)"
  by (simp add: analyzeResume_def Let_def split: prod.split)

lemma marks_unlinks:
  "fst (snd (analyzeMarks parse pf pint appPy groq f (Some fl))) = tryUnlink f (path fl)"
proof (cases "readFileSync f (path fl)")
  case (Inl e)
  then show ?thesis by (simp add: analyzeMarks_def)
next
  case buf: (Inr fileBuffer)
  show ?thesis
  proof (cases appPy)
    case None
    then show ?thesis by (simp add: analyzeMarks_def buf)
  next
    case (Some data)
    show ?thesis
    proof (cases "unlinkSync f (path fl)")
      case (Inl e)
      then show ?thesis by (simp add: analyzeMarks_def buf Some)
    next
      case (Inr f1)
      then show ?thesis
        by (simp add: analyzeMarks_def buf Some unlinkSync_Inr split: prod.split sum.split)
    qed
  qed
qed

text \<open>
  C8, as the code has it. Whenever the photo, resume or marks handler runs with an
  uploaded file, the directory it leaves is the directory it found after one guarded
  \<open>unlinkSync\<close> of the staged path, for every outcome of the calls to cloudinary, app.py
  and the LLM, every reply text and every behaviour of JSON.parse, parseFloat and
  parseInt, that is on the success path, after a parse failure and after an exception
  alike. So the staged file is gone when the handler has answered if the file system
  lets it be removed; if \<open>unlinkSync\<close> throws on it, the catch block logs the error and
  the file stays. No other file is touched.
\<close>

theorem staged_file_unlink_attempted:
  "fst (snd (uploadPhoto cloud f (Some fl))) = tryUnlink f (path fl)
   \<and> fst (snd (analyzeResume parse health appPy groqS groqF f (Some fl))) = tryUnlink f (path fl)
   \<and> fst (snd (analyzeMarks parse pf pint appPyM groq f (Some fl))) = tryUnlink f (path fl)
   \<and> tryUnlink f (path fl) (path fl)
       = (case f (path fl) of
            None \<Rightarrow> None
          | Some x \<Rightarrow> if removable x then None else Some x)
   \<and> (\<forall>p. p \<noteq> path fl \<longrightarrow> tryUnlink f (path fl) p = f p)"
  using photo_unlinks [of cloud f fl] resume_unlinks [of parse health appPy groqS groqF f fl]
    marks_unlinks [of parse pf pint appPyM groq f fl] tryUnlink_at [of f "path fl"]
    tryUnlink_elsewhere [of _ "path fl" f]
  by simp

text \<open>The claim as the specification states it, the staged file is deleted on every
  exit path, fails when the file system refuses the removal. The photo is uploaded to
  cloudinary, \<open>unlinkSync\<close> throws at line 823, the one of line 831 throws again, and the
  handler answers 500 with the file in place; the resume handler answers 200 with its
  default analysis after the \<open>unlinkSync\<close> of line 1111 has thrown; the marks handler
  answers 200 after those of lines 1188 and 1288 have thrown.\<close>

theorem staged_file_deleted_counterexample:
  "heldFiles (path exampleUpload) = Some \<lparr>bytes = ''%PDF-1.4'', removable = False\<rparr>
   \<and> status (fst (uploadPhoto (Some (JObj [(''secure_url'', JStr ''https://res.cloudinary.com/p.png'')]))
        heldFiles (Some exampleUpload))) = 500
   \<and> fst (snd (uploadPhoto (Some (JObj [(''secure_url'', JStr ''https://res.cloudinary.com/p.png'')]))
        heldFiles (Some exampleUpload))) (path exampleUpload)
       = Some \<lparr>bytes = ''%PDF-1.4'', removable = False\<rparr>
   \<and> status (fst (analyzeResume JSON_parse None None GroqFails GroqFails
        heldFiles (Some exampleUpload))) = 200
   \<and> fst (snd (analyzeResume JSON_parse None None GroqFails GroqFails
        heldFiles (Some exampleUpload))) (path exampleUpload)
       = Some \<lparr>bytes = ''%PDF-1.4'', removable = False\<rparr>
   \<and> status (fst (analyzeMarks JSON_parse (\<lambda>x. NaN) (\<lambda>x. NaN) (Some exampleAnalysis) GroqFails
        heldFiles (Some exampleUpload))) = 200
   \<and> fst (snd (analyzeMarks JSON_parse (\<lambda>x. NaN) (\<lambda>x. NaN) (Some exampleAnalysis) GroqFails
        heldFiles (Some exampleUpload))) (path exampleUpload)
       = Some \<lparr>bytes = ''%PDF-1.4'', removable = False\<rparr>"
  by code_simp

text \<open>Two staged files that can be removed; cloudinary rejects, app.py and the LLM
  are down for the resume, and the LLM answers the marks handler in prose. The file of
  the request is gone, the other one is still there.\<close>

theorem staged_file_unlink_attempted_witness:
  "fst (snd (uploadPhoto None
        (exampleFiles(''uploads/1700000000001-marks.pdf'' \<mapsto> \<lparr>bytes = ''%PDF-1.7'', removable = True\<rparr>))
        (Some exampleUpload))) (path exampleUpload) = None
   \<and> fst (snd (analyzeResume JSON_parse None None GroqFails GroqFails
        (exampleFiles(''uploads/1700000000001-marks.pdf'' \<mapsto> \<lparr>bytes = ''%PDF-1.7'', removable = True\<rparr>))
        (Some exampleUpload))) (path exampleUpload) = None
   \<and> fst (snd (analyzeMarks JSON_parse (\<lambda>x. NaN) (\<lambda>x. NaN)
        (Some (JObj [(''success'', JBool True), (''analysis'', JStr ''GPA 8.5'')]))
        (GroqReplies (Some ''no JSON here''))
        (exampleFiles(''uploads/1700000000001-marks.pdf'' \<mapsto> \<lparr>bytes = ''%PDF-1.7'', removable = True\<rparr>))
        (Some exampleUpload))) (path exampleUpload) = None
   \<and> ''uploads/1700000000001-marks.pdf'' \<noteq> path exampleUpload
   \<and> fst (snd (analyzeMarks JSON_parse (\<lambda>x. NaN) (\<lambda>x. NaN)
        (Some (JObj [(''success'', JBool True), (''analysis'', JStr ''GPA 8.5'')]))
        (GroqReplies (Some ''no JSON here''))
        (exampleFiles(''uploads/1700000000001-marks.pdf'' \<mapsto> \<lparr>bytes = ''%PDF-1.7'', removable = True\<rparr>))
        (Some exampleUpload))) ''uploads/1700000000001-marks.pdf''
       = Some \<lparr>bytes = ''%PDF-1.7'', removable = True\<rparr>"
proof -
  from staged_file_unlink_attempted
    [where cloud = None
       and f = "exampleFiles(''uploads/1700000000001-marks.pdf'' \<mapsto> \<lparr>bytes = ''%PDF-1.7'', removable = True\<rparr>)"
       and fl = exampleUpload and parse = JSON_parse and health = None and appPy = None
       and groqS = GroqFails and groqF = GroqFails and pf = "\<lambda>x. NaN" and pint = "\<lambda>x. NaN"
       and appPyM = "Some (JObj [(''success'', JBool True), (''analysis'', JStr ''GPA 8.5'')])"
       and groq = "GroqReplies (Some ''no JSON here'')"]
  show ?thesis
    by (simp add: exampleFiles_def exampleUpload_def)
qed

section \<open>The tiers of the resume handler\<close>

lemma getprop_Inr: "getprop v k = Inr x \<longleftrightarrow> v \<noteq> JNull \<and> x = optprop (Some v) k"
  by (cases v) auto

lemma propOr_null: "propOr JNull k d = Inl TypeError"
  by (simp add: propOr_def)
lemma propOr_nonnull: "a \<noteq> JNull \<Longrightarrow> propOr a k d = Inr (orElse (optprop (Some a) k) d)"
  by (simp add: propOr_def getprop_optprop)
lemma propArrayOr_null: "propArrayOr JNull k d = Inl TypeError"
  by (simp add: propArrayOr_def)
lemma propArrayOr_nonnull: "a \<noteq> JNull \<Longrightarrow> propArrayOr a k d = Inr (if isArray (optprop (Some a) k) then the (optprop (Some a) k) else d)"
  by (simp add: propArrayOr_def getprop_optprop)

lemma resumeGroqResult_null: "resumeGroqResult JNull fl fc = Inl TypeError"
  by (simp add: resumeGroqResult_def objectLit_def propArrayOr_null)

lemma resumeGroqResult_nonnull:
  assumes "g \<noteq> JNull"
  shows "\<exists>r. resumeGroqResult g fl fc = Inr r \<and> hasMembers r resumeKeys
            \<and> sourceOf r = Some (JStr ''groq-fallback'')"
  by (simp add: resumeGroqResult_def objectLit_def propArrayOr_nonnull [OF assms]
        propOr_nonnull [OF assms] hasMembers_def resumeKeys_def sourceOf_def)

lemma resumeStructure_members:
  "\<exists>a b c d. resumeStructure parse c0 = JObj [(''skills'', a), (''projects'', b), (''experience'', c), (''education'', d)]"
proof (cases "parse (jsonContent (contentOr c0 ''{}''))")
  case None
  then show ?thesis by (simp add: resumeStructure_def resumeStaticStructure_def)
next
  case (Some b)
  show ?thesis
  proof (cases "b = JNull")
    case True
    then show ?thesis using Some
      by (simp add: resumeStructure_def resumeStaticStructure_def objectLit_def propArrayOr_null)
  next
    case False
    then show ?thesis using Some
      by (simp add: resumeStructure_def objectLit_def propArrayOr_nonnull [OF False])
  qed
qed

lemma resumeStructure_failed:
  "parse (jsonContent (contentOr c0 ''{}'')) = None \<or> parse (jsonContent (contentOr c0 ''{}'')) = Some JNull
   \<Longrightarrow> resumeStructure parse c0 = resumeStaticStructure"
  by (auto simp: resumeStructure_def objectLit_def propArrayOr_null)

lemma resumeAppPy_unreached:
  assumes "\<not> appPyTierReached appPy f fl"
  shows "fst (resumeAppPy parse appPy groq1 f fl) = None"
proof (cases "f (path fl)")
  case None
  then show ?thesis by (simp add: resumeAppPy_def readFileSync_def)
next
  case buf: (Some buf)
  show ?thesis
  proof (cases appPy)
    case None
    then show ?thesis by (simp add: resumeAppPy_def readFileSync_def buf)
  next
    case (Some data)
    show ?thesis
    proof (cases "data = JNull")
      case True
      then show ?thesis by (simp add: resumeAppPy_def readFileSync_def buf Some)
    next
      case False
      with assms buf Some
      have "\<not> truthy (optprop (Some data) ''success'') \<or>
            (\<forall>t. optprop (Some data) ''analysis'' \<noteq> Some (JStr t))"
        by (auto simp: appPyTierReached_def split: option.splits json.splits)
      then show ?thesis
        by (auto simp: resumeAppPy_def readFileSync_def buf Some getprop_optprop [OF False]
              split: option.splits json.splits)
    qed
  qed
qed

lemma resumeAppPy_reached:
  assumes "appPyTierReached appPy f fl"
  shows "resumeAppPy parse appPy GroqFails f fl = (None, [CallAppPyUpload, CallGroq])"
    and "resumeAppPy parse appPy (GroqReplies c) f fl =
           (Some (JObj (fieldsOf (resumeStructure parse c)
                   @ [(''detailedAnalysis'', the (optprop appPy ''analysis'')),
                      (''filename'', orElse (optprop appPy ''filename'') (JStr (originalname fl))),
                      (''extractedTextLength'',
                         orElse (optprop appPy ''extracted_text_length'') (JNum 0)),
                      (''source'', JStr ''app.py'')])), [CallAppPyUpload, CallGroq])"
proof -
  from assms obtain data t buf where
      f: "f (path fl) = Some buf" and d: "appPy = Some data" and nn: "data \<noteq> JNull"
      and su: "truthy (optprop (Some data) ''success'')"
      and an: "optprop (Some data) ''analysis'' = Some (JStr t)"
    unfolding appPyTierReached_def by (auto split: option.splits json.splits)
  show "resumeAppPy parse appPy GroqFails f fl = (None, [CallAppPyUpload, CallGroq])"
    by (simp add: resumeAppPy_def readFileSync_def f d getprop_optprop [OF nn] su an)
  show "resumeAppPy parse appPy (GroqReplies c) f fl =
           (Some (JObj (fieldsOf (resumeStructure parse c)
                   @ [(''detailedAnalysis'', the (optprop appPy ''analysis'')),
                      (''filename'', orElse (optprop appPy ''filename'') (JStr (originalname fl))),
                      (''extractedTextLength'',
                         orElse (optprop appPy ''extracted_text_length'') (JNum 0)),
                      (''source'', JStr ''app.py'')])), [CallAppPyUpload, CallGroq])"
    by (simp add: resumeAppPy_def readFileSync_def f d getprop_optprop [OF nn] su an)
qed

lemma resumeGroqOnly_cases:
  "fst (resumeGroqOnly parse groq2 f fl) = resumeUploadOnly fl
   \<or> fst (resumeGroqOnly parse groq2 f fl) = resumeBasicFallback fl
   \<or> (\<exists>g fc. resumeGroqResult g fl fc = Inr (fst (resumeGroqOnly parse groq2 f fl)))"
proof (cases "if toLowerCase (extname (originalname fl)) = ''.txt''
              then readFileSync f (path fl)
              else Inr (''Resume file: '' @ originalname fl @ '' ('' @ showNat (size fl) @ '' bytes)'')")
  case (Inl e)
  then show ?thesis unfolding resumeGroqOnly_def by simp
next
  case (Inr fileContent)
  show ?thesis
  proof (cases groq2)
    case GroqFails
    then show ?thesis unfolding resumeGroqOnly_def using Inr by simp
  next
    case (GroqReplies c)
    show ?thesis
    proof (cases "parse (jsonContent (contentOr c ''{}''))")
      case None
      then show ?thesis unfolding resumeGroqOnly_def using Inr GroqReplies by simp
    next
      case (Some g)
      show ?thesis
      proof (cases "resumeGroqResult g fl fileContent")
        case (Inl e)
        then show ?thesis unfolding resumeGroqOnly_def using Inr GroqReplies Some by simp
      next
        case r: (Inr r)
        then have "fst (resumeGroqOnly parse groq2 f fl) = r"
          unfolding resumeGroqOnly_def using Inr GroqReplies Some by simp
        with r show ?thesis by metis
      qed
    qed
  qed
qed

lemma resumeGroqOnly_tiers:
  "hasMembers (fst (resumeGroqOnly parse groq2 f fl)) resumeKeys \<and>
   sourceOf (fst (resumeGroqOnly parse groq2 f fl)) \<in>
     {Some (JStr ''groq-fallback''), Some (JStr ''basic-fallback''), Some (JStr ''upload-only'')}"
proof -
  have u: "hasMembers (resumeUploadOnly fl) resumeKeys \<and> sourceOf (resumeUploadOnly fl) = Some (JStr ''upload-only'')"
    by (simp add: resumeUploadOnly_def hasMembers_def resumeKeys_def sourceOf_def)
  have b: "hasMembers (resumeBasicFallback fl) resumeKeys \<and> sourceOf (resumeBasicFallback fl) = Some (JStr ''basic-fallback'')"
    by (simp add: resumeBasicFallback_def hasMembers_def resumeKeys_def sourceOf_def)
  have g: "hasMembers r resumeKeys \<and> sourceOf r = Some (JStr ''groq-fallback'')"
    if a: "resumeGroqResult g fl fc = Inr r" for g fc r
  proof -
    from a have "g \<noteq> JNull" using resumeGroqResult_null by auto
    from resumeGroqResult_nonnull [OF this, of fl fc] a show ?thesis by auto
  qed
  from resumeGroqOnly_cases [of parse groq2 f fl] show ?thesis
  proof (elim disjE exE)
    assume "fst (resumeGroqOnly parse groq2 f fl) = resumeUploadOnly fl"
    with u show ?thesis by simp
  next
    assume "fst (resumeGroqOnly parse groq2 f fl) = resumeBasicFallback fl"
    with b show ?thesis by simp
  next
    fix g fc assume "resumeGroqResult g fl fc = Inr (fst (resumeGroqOnly parse groq2 f fl))"
    from g [OF this] show ?thesis by simp
  qed
qed

lemma resumeGroqOnly_fails:
  "sourceOf (fst (resumeGroqOnly parse GroqFails f fl)) = Some (JStr ''upload-only'')"
  by (simp add: resumeGroqOnly_def resumeUploadOnly_def sourceOf_def split: sum.splits)

lemma resumeGroqOnly_unparsed:
  assumes "toLowerCase (extname (originalname fl)) \<noteq> ''.txt'' \<or> f (path fl) \<noteq> None"
    and "parse (jsonContent (contentOr c ''{}'')) = None \<or> parse (jsonContent (contentOr c ''{}'')) = Some JNull"
  shows "fst (resumeGroqOnly parse (GroqReplies c) f fl) = resumeBasicFallback fl"
  using assms
  by (auto simp: resumeGroqOnly_def readFileSync_def resumeGroqResult_null)

lemma analyzeResume_body:
  "body (fst (analyzeResume parse health appPy groq1 groq2 f (Some fl))) =
     (if health = Some 200
      then (case fst (resumeAppPy parse appPy groq1 f fl) of
              Some r \<Rightarrow> r | None \<Rightarrow> fst (resumeGroqOnly parse groq2 f fl))
      else fst (resumeGroqOnly parse groq2 f fl))"
  by (simp add: analyzeResume_def Let_def case_prod_unfold split: option.split)

lemma analyzeResume_status:
  "status (fst (analyzeResume parse health appPy groq1 groq2 f (Some fl))) = 200"
  by (simp add: analyzeResume_def Let_def case_prod_unfold)

lemma resumeAppPy_members:
  assumes "fst (resumeAppPy parse appPy groq1 f fl) = Some r"
  shows "hasMembers r resumeKeys \<and> sourceOf r = Some (JStr ''app.py'')"
proof -
  have re: "appPyTierReached appPy f fl"
    using assms resumeAppPy_unreached [of appPy f fl parse groq1] by auto
  show ?thesis
  proof (cases groq1)
    case GroqFails
    with resumeAppPy_reached(1) [OF re, of parse] assms show ?thesis by simp
  next
    case (GroqReplies c)
    obtain a b c' d' where s: "resumeStructure parse c = JObj [(''skills'', a), (''projects'', b), (''experience'', c'), (''education'', d')]"
      using resumeStructure_members by blast
    from resumeAppPy_reached(2) [OF re, of parse c] assms GroqReplies
    show ?thesis by (auto simp: s hasMembers_def resumeKeys_def sourceOf_def)
  qed
qed

lemma resume_total:
  "status (fst (analyzeResume parse health appPy groq1 groq2 f (Some fl))) = 200
   \<and> hasMembers (body (fst (analyzeResume parse health appPy groq1 groq2 f (Some fl)))) resumeKeys
   \<and> sourceOf (body (fst (analyzeResume parse health appPy groq1 groq2 f (Some fl))))
       \<in> {Some (JStr ''app.py''), Some (JStr ''groq-fallback''), Some (JStr ''basic-fallback''),
          Some (JStr ''upload-only'')}"
proof (cases "health = Some 200 \<and> fst (resumeAppPy parse appPy groq1 f fl) \<noteq> None")
  case True
  then obtain r where r: "fst (resumeAppPy parse appPy groq1 f fl) = Some r" by auto
  from resumeAppPy_members [OF r] True r show ?thesis
    by (simp add: analyzeResume_body analyzeResume_status)
next
  case False
  then have "body (fst (analyzeResume parse health appPy groq1 groq2 f (Some fl))) = fst (resumeGroqOnly parse groq2 f fl)"
    by (auto simp: analyzeResume_body)
  then show ?thesis using resumeGroqOnly_tiers [of parse groq2 f fl]
    by (simp add: analyzeResume_status)
qed

lemma resume_appPy_tier:
  assumes h: "health = Some 200" and re: "appPyTierReached appPy f fl"
  shows "body (fst (analyzeResume parse health appPy (GroqReplies c) groq2 f (Some fl))) =
           JObj (fieldsOf (resumeStructure parse c)
                   @ [(''detailedAnalysis'', the (optprop appPy ''analysis'')),
                      (''filename'', orElse (optprop appPy ''filename'') (JStr (originalname fl))),
                      (''extractedTextLength'',
                         orElse (optprop appPy ''extracted_text_length'') (JNum 0)),
                      (''source'', JStr ''app.py'')])"
    and "body (fst (analyzeResume parse health appPy GroqFails groq2 f (Some fl))) =
           fst (resumeGroqOnly parse groq2 f fl)"
  by (simp_all add: analyzeResume_body h resumeAppPy_reached [OF re])

lemma resume_groq_tier:
  assumes "health \<noteq> Some 200 \<or> \<not> appPyTierReached appPy f fl"
  shows "body (fst (analyzeResume parse health appPy groq1 groq2 f (Some fl))) =
           fst (resumeGroqOnly parse groq2 f fl)"
  using assms resumeAppPy_unreached [of appPy f fl parse groq1]
  by (auto simp: analyzeResume_body)

text \<open>
  C6, as amended. In the resume handler a failure of the EXTRACT stage does not always
  lower the tier. When the app.py tier reaches its structuring call and the call
  replies, the result is tagged app.py whatever the reply is; if the reply cannot be
  parsed, the four structure members are the static ones of the catch block. When the
  structuring call is rejected (or the app.py tier is not reached at all), the result
  comes from the Groq-only tier and is tagged groq-fallback, basic-fallback or
  upload-only, never app.py: upload-only when the second call to the LLM is rejected,
  basic-fallback when that call replies with a text that cannot be parsed. The tag
  error-fallback is never returned with a file.
\<close>

theorem resume_extract_failure_tier:
  "(health = Some 200 \<and> appPyTierReached appPy f fl \<and> groqS = GroqReplies c \<longrightarrow>
      sourceOf (body (fst (analyzeResume parse health appPy groqS groqF f (Some fl))))
        = Some (JStr ''app.py'')
      \<and> (parseFails parse (jsonContent (contentOr c ''{}'')) \<longrightarrow>
           (\<forall>k \<in> {''skills'', ''projects'', ''experience'', ''education''}.
              optprop (Some (body (fst (analyzeResume parse health appPy groqS groqF f (Some fl))))) k
                = optprop (Some resumeStaticStructure) k)))
   \<and> ((health = Some 200 \<and> appPyTierReached appPy f fl \<longrightarrow> groqS = GroqFails) \<longrightarrow>
        sourceOf (body (fst (analyzeResume parse health appPy groqS groqF f (Some fl))))
          \<in> {Some (JStr ''groq-fallback''), Some (JStr ''basic-fallback''), Some (JStr ''upload-only'')}
        \<and> (groqF = GroqFails \<longrightarrow>
             sourceOf (body (fst (analyzeResume parse health appPy groqS groqF f (Some fl))))
               = Some (JStr ''upload-only''))
        \<and> (\<forall>c2. groqF = GroqReplies c2 \<and> parseFails parse (jsonContent (contentOr c2 ''{}''))
                  \<and> (toLowerCase (extname (originalname fl)) \<noteq> ''.txt'' \<or> f (path fl) \<noteq> None) \<longrightarrow>
             sourceOf (body (fst (analyzeResume parse health appPy groqS groqF f (Some fl))))
               = Some (JStr ''basic-fallback'')))"
proof (intro conjI impI)
  assume a: "health = Some 200 \<and> appPyTierReached appPy f fl \<and> groqS = GroqReplies c"
  obtain a' b c' d' where s: "resumeStructure parse c = JObj [(''skills'', a'), (''projects'', b), (''experience'', c'), (''education'', d')]"
    using resumeStructure_members by blast
  from a resume_appPy_tier(1) [of health appPy f fl parse c groqF]
  have b: "body (fst (analyzeResume parse health appPy groqS groqF f (Some fl))) =
           JObj (fieldsOf (resumeStructure parse c)
                   @ [(''detailedAnalysis'', the (optprop appPy ''analysis'')),
                      (''filename'', orElse (optprop appPy ''filename'') (JStr (originalname fl))),
                      (''extractedTextLength'',
                         orElse (optprop appPy ''extracted_text_length'') (JNum 0)),
                      (''source'', JStr ''app.py'')])" by simp
  show "sourceOf (body (fst (analyzeResume parse health appPy groqS groqF f (Some fl))))
        = Some (JStr ''app.py'')"
    by (simp add: b s sourceOf_def)
  assume "parseFails parse (jsonContent (contentOr c ''{}''))"
  then have "resumeStructure parse c = resumeStaticStructure"
    using resumeStructure_failed [of parse c] by (simp add: parseFails_def)
  then show "\<forall>k \<in> {''skills'', ''projects'', ''experience'', ''education''}.
              optprop (Some (body (fst (analyzeResume parse health appPy groqS groqF f (Some fl))))) k
                = optprop (Some resumeStaticStructure) k"
    by (simp add: b resumeStaticStructure_def)
next
  assume a: "health = Some 200 \<and> appPyTierReached appPy f fl \<longrightarrow> groqS = GroqFails"
  have b: "body (fst (analyzeResume parse health appPy groqS groqF f (Some fl))) =
           fst (resumeGroqOnly parse groqF f fl)"
  proof (cases "health = Some 200 \<and> appPyTierReached appPy f fl")
    case True
    with a resume_appPy_tier(2) [of health appPy f fl parse groqF] show ?thesis by simp
  next
    case False
    then show ?thesis using resume_groq_tier [of health appPy f fl parse groqS groqF] by blast
  qed
  show "sourceOf (body (fst (analyzeResume parse health appPy groqS groqF f (Some fl))))
          \<in> {Some (JStr ''groq-fallback''), Some (JStr ''basic-fallback''), Some (JStr ''upload-only'')}"
    using resumeGroqOnly_tiers [of parse groqF f fl] by (simp add: b)
  show "sourceOf (body (fst (analyzeResume parse health appPy groqS groqF f (Some fl))))
               = Some (JStr ''upload-only'')" if "groqF = GroqFails"
    unfolding b using that resumeGroqOnly_fails [of parse f fl] by simp
  show "\<forall>c2. groqF = GroqReplies c2 \<and> parseFails parse (jsonContent (contentOr c2 ''{}''))
                  \<and> (toLowerCase (extname (originalname fl)) \<noteq> ''.txt'' \<or> f (path fl) \<noteq> None) \<longrightarrow>
             sourceOf (body (fst (analyzeResume parse health appPy groqS groqF f (Some fl))))
               = Some (JStr ''basic-fallback'')"
  proof (intro allI impI)
    fix c2
    assume h: "groqF = GroqReplies c2 \<and> parseFails parse (jsonContent (contentOr c2 ''{}''))
                  \<and> (toLowerCase (extname (originalname fl)) \<noteq> ''.txt'' \<or> f (path fl) \<noteq> None)"
    then have "fst (resumeGroqOnly parse groqF f fl) = resumeBasicFallback fl"
      using resumeGroqOnly_unparsed [of fl f parse c2] by (simp add: parseFails_def)
    then show "sourceOf (body (fst (analyzeResume parse health appPy groqS groqF f (Some fl))))
               = Some (JStr ''basic-fallback'')"
      by (simp add: b resumeBasicFallback_def sourceOf_def)
  qed
qed

text \<open>The claim as stated fails: app.py has analysed the resume, the structuring call
  replies in prose, JSON.parse throws on it, and the payload is tagged app.py.\<close>

theorem resume_extract_failure_counterexample:
  "JSON_parse (jsonContent ''I could not structure this resume.'') = None
   \<and> sourceOf (body (fst (analyzeResume JSON_parse (Some 200)
        (Some (JObj [(''success'', JBool True), (''analysis'', JStr ''A strong resume.'')]))
        (GroqReplies (Some ''I could not structure this resume.'')) GroqFails
        exampleFiles (Some exampleUpload))))
      = Some (JStr ''app.py'')"
  by code_simp

text \<open>app.py has analysed the resume. A structuring call that replies in prose leaves
  the tag app.py and the static skills. A rejected structuring call leads to the
  Groq-only tier: with a prose reply of its call the tag is basic-fallback, with a
  rejected call it is upload-only.\<close>

lemma example_reached: "appPyTierReached (Some exampleAnalysis) exampleFiles exampleUpload"
  by (simp add: appPyTierReached_def exampleAnalysis_def exampleFiles_def exampleUpload_def)

theorem resume_extract_failure_tier_witness:
  "sourceOf (body (fst (analyzeResume JSON_parse (Some 200) (Some exampleAnalysis)
       (GroqReplies (Some ''I could not read this resume.'')) GroqFails
       exampleFiles (Some exampleUpload))))
     = Some (JStr ''app.py'')
   \<and> optprop (Some (body (fst (analyzeResume JSON_parse (Some 200) (Some exampleAnalysis)
       (GroqReplies (Some ''I could not read this resume.'')) GroqFails
       exampleFiles (Some exampleUpload))))) ''skills''
     = optprop (Some resumeStaticStructure) ''skills''
   \<and> sourceOf (body (fst (analyzeResume JSON_parse (Some 200) (Some exampleAnalysis) GroqFails
       (GroqReplies (Some ''I could not read this resume.'')) exampleFiles (Some exampleUpload))))
     = Some (JStr ''basic-fallback'')
   \<and> sourceOf (body (fst (analyzeResume JSON_parse (Some 200) (Some exampleAnalysis) GroqFails
       GroqFails exampleFiles (Some exampleUpload))))
     = Some (JStr ''upload-only'')"
proof -
  have p: "parseFails JSON_parse (jsonContent (contentOr (Some ''I could not read this resume.'') ''{}''))"
    by code_simp
  have e: "toLowerCase (extname (originalname exampleUpload)) \<noteq> ''.txt''"
    by code_simp
  from resume_extract_failure_tier
    [where health = "Some 200" and appPy = "Some exampleAnalysis" and f = exampleFiles
       and fl = exampleUpload and parse = JSON_parse
       and groqS = "GroqReplies (Some ''I could not read this resume.'')"
       and c = "Some ''I could not read this resume.''" and groqF = GroqFails]
    resume_extract_failure_tier
    [where health = "Some 200" and appPy = "Some exampleAnalysis" and f = exampleFiles
       and fl = exampleUpload and groqS = GroqFails and parse = JSON_parse
       and groqF = "GroqReplies (Some ''I could not read this resume.'')"]
    resume_extract_failure_tier
    [where health = "Some 200" and appPy = "Some exampleAnalysis" and f = exampleFiles
       and fl = exampleUpload and groqS = GroqFails and parse = JSON_parse
       and groqF = GroqFails]
    example_reached p e
  show ?thesis by simp
qed

section \<open>The payload of the soft-skills handler\<close>

lemma members_Cons:
  "members ((k, x) # r) =
     (case x of Inl e \<Rightarrow> Inl e
      | Inr v \<Rightarrow> (case members r of Inl e \<Rightarrow> Inl e | Inr kvs \<Rightarrow> Inr ((k, v) # kvs)))"
  by (cases x) simp_all

lemma truthy_orElse: "truthy (Some d) \<Longrightarrow> truthy (Some (orElse x d))"
  by (cases x) (auto simp: orElse_def)

lemma softSkillsNormalize_null: "softSkillsNormalize JNull now fr = Inl TypeError"
  by (simp add: softSkillsNormalize_def objectLit_def propOr_null)

lemma softSkillsNormalize_nonnull:
  assumes "a \<noteq> JNull"
  shows "softSkillsNormalize a now fr =
     Inr (JObj
       [(''overallSoftSkillsScore'', orElse (optprop (Some a) ''overallSoftSkillsScore'') (JNum 50)),
        (''skillBreakdown'', orElse (optprop (Some a) ''skillBreakdown'') (JObj [])),
        (''strengths'', orElse (optprop (Some a) ''strengths'') (JArr [])),
        (''areasForImprovement'', orElse (optprop (Some a) ''areasForImprovement'') (JArr [])),
        (''developmentRecommendations'',
           orElse (optprop (Some a) ''developmentRecommendations'') (JArr [])),
        (''personalityTraits'', orElse (optprop (Some a) ''personalityTraits'') (JArr [])),
        (''careerFitness'', orElse (optprop (Some a) ''careerFitness'')
           (JObj [(''technicalRoles'', JNum 5), (''managementRoles'', JNum 5),
                  (''consultingRoles'', JNum 5), (''entrepreneurialRoles'', JNum 5)])),
        (''detailedAnalysis'', orElse (optprop (Some a) ''detailedAnalysis'')
           (JStr ''Analysis completed successfully.'')),
        (''assessmentDate'', JStr now),
        (''responses'', fr)])"
  by (simp add: softSkillsNormalize_def objectLit_def propOr_nonnull [OF assms])

lemma softSkillsNormalize_populated:
  assumes "a \<noteq> JNull"
  shows "\<exists>r. softSkillsNormalize a now fr = Inr r \<and> populated r softSkillsKeys
           \<and> optprop (Some r) ''assessmentDate'' = Some (JStr now)
           \<and> optprop (Some r) ''responses'' = Some fr"
  by (simp add: softSkillsNormalize_nonnull [OF assms] populated_def softSkillsKeys_def truthy_orElse)

lemma softSkillsFallback_populated:
  "populated (softSkillsFallback now fr) softSkillsKeys
   \<and> optprop (Some (softSkillsFallback now fr)) ''assessmentDate'' = Some (JStr now)
   \<and> optprop (Some (softSkillsFallback now fr)) ''responses'' = Some fr"
  by (simp add: softSkillsFallback_def populated_def softSkillsKeys_def)

lemma softSkillsData_populated:
  "populated (softSkillsData parse now fr text) softSkillsKeys
   \<and> optprop (Some (softSkillsData parse now fr text)) ''assessmentDate'' = Some (JStr now)
   \<and> optprop (Some (softSkillsData parse now fr text)) ''responses'' = Some fr"
proof (cases "parse text = None \<or> parse text = Some JNull")
  case True
  then have "softSkillsData parse now fr text = softSkillsFallback now fr"
    by (auto simp: softSkillsData_def softSkillsNormalize_null)
  then show ?thesis using softSkillsFallback_populated by simp
next
  case False
  then obtain a where a: "parse text = Some a" "a \<noteq> JNull" by auto
  from softSkillsNormalize_populated [OF a(2), of now fr] obtain r where
    r: "softSkillsNormalize a now fr = Inr r" "populated r softSkillsKeys"
       "optprop (Some r) ''assessmentDate'' = Some (JStr now)" "optprop (Some r) ''responses'' = Some fr"
    by blast
  have "softSkillsData parse now fr text = r" by (simp add: softSkillsData_def a r)
  with r show ?thesis by simp
qed

lemma length_questions: "length SOFT_SKILLS_QUESTIONS = 5"
  by (simp add: SOFT_SKILLS_QUESTIONS_def)

lemma formatResponse_ok:
  assumes "r \<noteq> JNull" "i < 5"
  shows "\<exists>y. formatResponse r i = Inr y"
  using assms by (simp add: formatResponse_def length_questions objectLit_def Let_def propOr_nonnull)

lemma formatResponse_null: "formatResponse JNull i = Inl TypeError"
  by (simp add: formatResponse_def objectLit_def Let_def propOr_null)

lemma mapIndexed_format_ok:
  "JNull \<notin> set xs \<Longrightarrow> i + length xs \<le> 5 \<Longrightarrow> \<exists>ys. mapIndexed formatResponse i xs = Inr ys"
proof (induction xs arbitrary: i)
  case Nil
  then show ?case by simp
next
  case (Cons x xs)
  then have "x \<noteq> JNull" "i < 5" by auto
  from formatResponse_ok [OF this] obtain y where y: "formatResponse x i = Inr y" by blast
  from Cons have "\<exists>ys. mapIndexed formatResponse (Suc i) xs = Inr ys" by simp
  then obtain ys where "mapIndexed formatResponse (Suc i) xs = Inr ys" by blast
  with y show ?case by simp
qed

lemma mapIndexed_format_null:
  "JNull \<in> set xs \<Longrightarrow> i + length xs \<le> 5 \<Longrightarrow> mapIndexed formatResponse i xs = Inl TypeError"
proof (induction xs arbitrary: i)
  case Nil
  then show ?case by simp
next
  case (Cons x xs)
  show ?case
  proof (cases "x = JNull")
    case True
    then show ?thesis by (simp add: formatResponse_null)
  next
    case False
    with Cons.prems have "i < 5" "JNull \<in> set xs" "Suc i + length xs \<le> 5" by auto
    from formatResponse_ok [OF False this(1)] obtain y where y: "formatResponse x i = Inr y" by blast
    from Cons.IH [OF \<open>JNull \<in> set xs\<close> \<open>Suc i + length xs \<le> 5\<close>] y show ?thesis by simp
  qed
qed

lemma softSkills_valid:
  assumes r: "getprop reqBody ''responses'' = Inr (Some (JArr xs))" and len: "length xs = 5"
    and nn: "JNull \<notin> set xs"
  shows "softSkillsAnalyze parse now GroqFails findOk saveOk d reqBody =
           (softSkillsError TransportError, d, [CallGroq])"
    and "fst (softSkillsAnalyze parse now (GroqReplies c) findOk saveOk d reqBody) =
           \<lparr>status = 200,
            body = JObj [(''success'', JBool True),
                         (''data'', softSkillsData parse now (formattedResponses xs)
                                      (jsonContent (contentOr c []))),
                         (''message'', JStr ''Soft skills assessment completed successfully'')]\<rparr>"
proof -
  have b: "reqBody \<noteq> JNull" using r by auto
  obtain i where i: "getprop reqBody ''studentId'' = Inr i"
    using getprop_nonnull [OF b] by blast
  obtain ys where ys: "mapIndexed formatResponse 0 xs = Inr ys"
    using mapIndexed_format_ok [OF nn, of 0] len by auto
  show "softSkillsAnalyze parse now GroqFails findOk saveOk d reqBody =
           (softSkillsError TransportError, d, [CallGroq])"
    by (simp add: softSkillsAnalyze_def r i len ys)
  show "fst (softSkillsAnalyze parse now (GroqReplies c) findOk saveOk d reqBody) =
           \<lparr>status = 200,
            body = JObj [(''success'', JBool True),
                         (''data'', softSkillsData parse now (formattedResponses xs)
                                      (jsonContent (contentOr c []))),
                         (''message'', JStr ''Soft skills assessment completed successfully'')]\<rparr>"
    by (simp add: softSkillsAnalyze_def r i len ys formattedResponses_def
          Let_def case_prod_unfold)
qed

lemma softSkills_null_response:
  assumes r: "getprop reqBody ''responses'' = Inr (Some (JArr xs))" and len: "length xs = 5"
    and nn: "JNull \<in> set xs"
  shows "softSkillsAnalyze parse now groq findOk saveOk d reqBody = (softSkillsError TypeError, d, [])"
proof -
  have b: "reqBody \<noteq> JNull" using r by auto
  obtain i where i: "getprop reqBody ''studentId'' = Inr i"
    using getprop_nonnull [OF b] by blast
  have ys: "mapIndexed formatResponse 0 xs = Inl TypeError"
    using mapIndexed_format_null [OF nn, of 0] len by auto
  show ?thesis
    by (simp add: softSkillsAnalyze_def r i len ys)
qed

lemma exampleAnswers_valid:
  "getprop exampleAnswers ''responses'' =
     Inr (Some (JArr [JObj [(''answer'', JStr ''We rebuilt the parser.'')],
           JObj [(''answer'', JStr ''I listened first.'')],
           JObj [(''answer'', JStr ''I read the manual.'')],
           JObj [(''answer'', JStr ''I organised the demo.'')],
           JObj [(''answer'', JStr ''I rewrote the report.'')]]))"
  by (simp add: exampleAnswers_def)

text \<open>
  C5, as amended. When the LLM answers a valid soft-skills request (five responses, none
  of them null) with a text from which no usable JSON is extracted, the handler answers
  200 with the static payload of its catch block: overallSoftSkillsScore is 70 and all
  eight skillBreakdown entries are there. The payload has no source and no provenance
  member: the soft-skills handler does not tag its payloads with a tier.
\<close>

theorem softSkills_prose_reply:
  assumes r: "getprop reqBody ''responses'' = Inr (Some (JArr xs))" and len: "length xs = 5"
    and nn: "JNull \<notin> set xs"
    and p: "parseFails parse (jsonContent (contentOr c []))"
  shows "fst (softSkillsAnalyze parse now (GroqReplies c) findOk saveOk d reqBody) =
           \<lparr>status = 200,
            body = JObj [(''success'', JBool True),
                         (''data'', softSkillsFallback now (formattedResponses xs)),
                         (''message'', JStr ''Soft skills assessment completed successfully'')]\<rparr>
         \<and> optprop (Some (softSkillsFallback now (formattedResponses xs))) ''overallSoftSkillsScore''
             = Some (JNum 70)
         \<and> populated (the (optprop (Some (softSkillsFallback now (formattedResponses xs)))
                               ''skillBreakdown'')) skillNames
         \<and> optprop (Some (softSkillsFallback now (formattedResponses xs))) ''source'' = None
         \<and> optprop (Some (softSkillsFallback now (formattedResponses xs))) ''provenance'' = None"
proof -
  have "softSkillsData parse now (formattedResponses xs) (jsonContent (contentOr c []))
          = softSkillsFallback now (formattedResponses xs)"
    using p by (auto simp: softSkillsData_def parseFails_def softSkillsNormalize_null)
  with softSkills_valid(2) [OF r len nn, of parse now c findOk saveOk d]
  show ?thesis
    by (simp add: softSkillsFallback_def populated_def skillNames_def skillEntry_def)
qed

text \<open>The claim as stated fails on a prose reply: the score is 70, and there is no
  provenance member that could equal basic-fallback.\<close>

theorem softSkills_prose_provenance_counterexample:
  "optprop (optprop (Some (body (fst (softSkillsAnalyze JSON_parse ''2025-01-01T00:00:00.000Z''
       (GroqReplies (Some ''The student communicates clearly and works well in teams.''))
       True True [] exampleAnswers)))) ''data'') ''overallSoftSkillsScore'' = Some (JNum 70)
   \<and> optprop (optprop (Some (body (fst (softSkillsAnalyze JSON_parse ''2025-01-01T00:00:00.000Z''
       (GroqReplies (Some ''The student communicates clearly and works well in teams.''))
       True True [] exampleAnswers)))) ''data'') ''source'' = None
   \<and> optprop (optprop (Some (body (fst (softSkillsAnalyze JSON_parse ''2025-01-01T00:00:00.000Z''
       (GroqReplies (Some ''The student communicates clearly and works well in teams.''))
       True True [] exampleAnswers)))) ''data'') ''provenance'' = None"
  by code_simp

theorem softSkills_prose_reply_witness:
  "fst (softSkillsAnalyze JSON_parse ''2025-01-01T00:00:00.000Z''
         (GroqReplies (Some ''The student communicates clearly and works well in teams.''))
         True True [] exampleAnswers) =
     \<lparr>status = 200,
      body = JObj [(''success'', JBool True),
                   (''data'', softSkillsFallback ''2025-01-01T00:00:00.000Z''
                      (formattedResponses
                         [JObj [(''answer'', JStr ''We rebuilt the parser.'')],
                          JObj [(''answer'', JStr ''I listened first.'')],
                          JObj [(''answer'', JStr ''I read the manual.'')],
                          JObj [(''answer'', JStr ''I organised the demo.'')],
                          JObj [(''answer'', JStr ''I rewrote the report.'')]])),
                   (''message'', JStr ''Soft skills assessment completed successfully'')]\<rparr>"
proof -
  have p: "parseFails JSON_parse
             (jsonContent (contentOr (Some ''The student communicates clearly and works well in teams.'') []))"
    by code_simp
  from softSkills_prose_reply
    [where reqBody = exampleAnswers and parse = JSON_parse
       and c = "Some ''The student communicates clearly and works well in teams.''"
       and now = "''2025-01-01T00:00:00.000Z''" and findOk = True and saveOk = True and d = "[]",
     OF exampleAnswers_valid _ _ p]
  show ?thesis by simp
qed

text \<open>
  C2, as amended. On null the normalization of the soft-skills reply throws a TypeError
  (which the catch of the handler turns into the static payload). On every other value
  it returns an object with the ten declared members, in which the eight members read
  from the reply are truthy (never undefined, null, 0 or the empty string) and
  assessmentDate and responses are the handler's own. So the analysisData of the
  handler always has the ten members. The types of the members are not checked, and
  skillBreakdown need not have its eight entries: a truthy member of the reply is
  copied whatever it is, and the default of skillBreakdown is the empty object.
\<close>

theorem softSkills_normalization_populated:
  "softSkillsNormalize JNull now fr = Inl TypeError
   \<and> (a \<noteq> JNull \<longrightarrow>
        (\<exists>r. softSkillsNormalize a now fr = Inr r \<and> populated r softSkillsKeys
             \<and> optprop (Some r) ''assessmentDate'' = Some (JStr now)
             \<and> optprop (Some r) ''responses'' = Some fr))
   \<and> populated (softSkillsData parse now fr replyText) softSkillsKeys
   \<and> optprop (Some (softSkillsData parse now fr replyText)) ''assessmentDate'' = Some (JStr now)
   \<and> optprop (Some (softSkillsData parse now fr replyText)) ''responses'' = Some fr"
  using softSkillsNormalize_null [of now fr] softSkillsNormalize_populated [of a now fr]
    softSkillsData_populated [of parse now fr replyText]
  by blast

text \<open>The claim as stated fails: a reply without skillBreakdown gives a payload with an
  empty skillBreakdown, a string in the place of the strengths array is copied, and
  the normalization of null throws.\<close>

theorem softSkills_normalization_shape_counterexample:
  "optprop (optprop (Some (softSkillsData JSON_parse ''2025-01-01T00:00:00.000Z'' (JArr [])
       ''{\"overallSoftSkillsScore\": 85, \"strengths\": \"many\"}'')) ''skillBreakdown'') ''communication'' = None
   \<and> optprop (Some (softSkillsData JSON_parse ''2025-01-01T00:00:00.000Z'' (JArr [])
       ''{\"overallSoftSkillsScore\": 85, \"strengths\": \"many\"}'')) ''strengths'' = Some (JStr ''many'')
   \<and> softSkillsNormalize JNull ''2025-01-01T00:00:00.000Z'' (JArr []) = Inl TypeError"
  by code_simp

theorem softSkills_normalization_populated_witness:
  "softSkillsNormalize JNull ''2025-01-01T00:00:00.000Z'' (JArr []) = Inl TypeError
   \<and> JObj [(''overallSoftSkillsScore'', JNum 85)] \<noteq> JNull
   \<and> (\<exists>r. softSkillsNormalize (JObj [(''overallSoftSkillsScore'', JNum 85)])
              ''2025-01-01T00:00:00.000Z'' (JArr []) = Inr r
            \<and> populated r softSkillsKeys
            \<and> optprop (Some r) ''assessmentDate'' = Some (JStr ''2025-01-01T00:00:00.000Z'')
            \<and> optprop (Some r) ''responses'' = Some (JArr []))
   \<and> populated (softSkillsData JSON_parse ''2025-01-01T00:00:00.000Z'' (JArr [])
         ''{\"overallSoftSkillsScore\": 85, \"strengths\": \"many\"}'') softSkillsKeys
   \<and> optprop (Some (softSkillsData JSON_parse ''2025-01-01T00:00:00.000Z'' (JArr [])
         ''{\"overallSoftSkillsScore\": 85, \"strengths\": \"many\"}'')) ''responses'' = Some (JArr [])"
  using softSkills_normalization_populated
    [where now = "''2025-01-01T00:00:00.000Z''" and fr = "JArr []"
       and a = "JObj [(''overallSoftSkillsScore'', JNum 85)]"
       and parse = JSON_parse
       and replyText = "''{\"overallSoftSkillsScore\": 85, \"strengths\": \"many\"}''"]
  by simp

section \<open>What the normalizations copy\<close>















section \<open>What the four enrichment handlers answer when a call or a parse fails\<close>

lemma marksNormalize_shape:
  assumes "marksNormalize pf pint b = Inr r"
  shows "\<exists>s t c m. r = JObj [(''subjects'', s), (''totalPercentage'', t), (''cgpa'', c),
                               (''semester'', m)]"
  using assms unfolding marksNormalize_def objectLit_def
  by (auto simp: members_Cons split: sum.splits)

lemma marksFallback_shape:
  "\<exists>s t c m. marksFallback pf txt = JObj [(''subjects'', s), (''totalPercentage'', t), (''cgpa'', c),
                               (''semester'', m)]"
  by (simp add: marksFallback_def Let_def)

lemma marksAfterUpload_cases:
  "fst (marksAfterUpload parse pf pint data groq) \<in> range Inl \<or>
   (\<exists>r. fst (marksAfterUpload parse pf pint data groq) = Inr r \<and> status r = 200
        \<and> optprop (Some (body r)) ''success'' = Some (JBool True)
        \<and> hasMembers (the (optprop (Some (body r)) ''data'')) marksKeys)"
proof (cases "fst (marksAfterUpload parse pf pint data groq)")
  case (Inl e)
  then show ?thesis by simp
next
  case (Inr r)
  then obtain bm where
    bm: "(\<exists>b. marksNormalize pf pint b = Inr bm) \<or> (\<exists>t. bm = marksFallback pf t)"
    and r: "r = \<lparr>status = 200,
                  body = JObj
                    [(''success'', JBool True),
                     (''data'', JObj (fieldsOf bm
                        @ optMember ''detailedAnalysis'' (optprop (Some data) ''analysis'')
                        @ optMember ''filename'' (optprop (Some data) ''filename'')
                        @ optMember ''extractedTextLength''
                            (optprop (Some data) ''extracted_text_length''))),
                     (''nextEnabled'', JBool True),
                     (''message'', JStr ''Marks sheet analyzed successfully'')]\<rparr>"
    unfolding marksAfterUpload_def
    by (auto simp: Let_def split: sum.splits if_splits groqOutcome.splits option.splits json.splits)
  from bm obtain s t c m where
    "bm = JObj [(''subjects'', s), (''totalPercentage'', t), (''cgpa'', c), (''semester'', m)]"
    using marksNormalize_shape marksFallback_shape by metis
  then have "hasMembers (the (optprop (Some (body r)) ''data'')) marksKeys"
    by (simp add: r hasMembers_def marksKeys_def optMember_def split: option.split)
  with Inr r show ?thesis by simp
qed

lemma analyzeMarks_cases:
  "fst (analyzeMarks parse pf pint appPy groq f (Some fl)) = marksError \<or>
   (status (fst (analyzeMarks parse pf pint appPy groq f (Some fl))) = 200
    \<and> optprop (Some (body (fst (analyzeMarks parse pf pint appPy groq f (Some fl))))) ''success''
        = Some (JBool True)
    \<and> hasMembers (the (optprop (Some (body (fst (analyzeMarks parse pf pint appPy groq f (Some fl)))))
                          ''data'')) marksKeys)"
proof (cases "\<exists>buf data f1. f (path fl) = Some buf \<and> appPy = Some data \<and> unlinkSync f (path fl) = Inr f1")
  case False
  then show ?thesis
    by (auto simp: analyzeMarks_def readFileSync_def split: option.splits sum.splits)
next
  case True
  then obtain buf data f1 where
    h: "f (path fl) = Some buf" "appPy = Some data" "unlinkSync f (path fl) = Inr f1" by blast
  obtain x calls where x: "marksAfterUpload parse pf pint data groq = (x, calls)"
    by (cases "marksAfterUpload parse pf pint data groq")
  show ?thesis
  proof (cases x)
    case (Inl e)
    then show ?thesis by (simp add: analyzeMarks_def readFileSync_def h x)
  next
    case (Inr r)
    with x marksAfterUpload_cases [of parse pf pint data groq]
    have "status r = 200 \<and> optprop (Some (body r)) ''success'' = Some (JBool True)
        \<and> hasMembers (the (optprop (Some (body r)) ''data'')) marksKeys" by auto
    then show ?thesis by (simp add: analyzeMarks_def readFileSync_def h x Inr)
  qed
qed

lemma marksError_status: "status marksError = 200"
  by (simp add: marksError_def)

lemma analyzeMarks_transport:
  "appPy = None \<or> groq = GroqFails \<Longrightarrow>
     fst (analyzeMarks parse pf pint appPy groq f (Some fl)) = marksError"
  by (auto simp: analyzeMarks_def readFileSync_def marksAfterUpload_def Let_def
        split: option.splits sum.splits prod.splits)

lemma profileNormalize_null: "profileNormalize JNull = Inl TypeError"
  by (simp add: profileNormalize_def objectLit_def propOr_null)

lemma profileNormalize_nonnull:
  "a \<noteq> JNull \<Longrightarrow> \<exists>r. profileNormalize a = Inr r"
  by (simp add: profileNormalize_def objectLit_def propOr_nonnull)

lemma analyzeStudent_status:
  assumes "findOk" and "findOneByUsn d (toUpperCase u) = Some st"
  shows "status (fst (analyzeStudent parse groq findOk saveOk d u)) =
           (if (\<exists>c. groq = GroqReplies c \<and> \<not> parseFails parse (jsonContentProfile (contentOr c [])))
               \<and> saveOk
            then 200 else 500)"
proof (cases groq)
  case GroqFails
  then show ?thesis using assms by (simp add: analyzeStudent_def)
next
  case (GroqReplies c)
  show ?thesis
  proof (cases "parseFails parse (jsonContentProfile (contentOr c []))")
    case True
    then show ?thesis using assms GroqReplies
      by (auto simp: analyzeStudent_def parseFails_def profileNormalize_null Let_def)
  next
    case False
    then obtain a where a: "parse (jsonContentProfile (contentOr c [])) = Some a" "a \<noteq> JNull"
      by (auto simp: parseFails_def)
    from profileNormalize_nonnull [OF a(2)] obtain r where "profileNormalize a = Inr r" by blast
    then show ?thesis using assms GroqReplies False a
      by (simp add: analyzeStudent_def Let_def)
  qed
qed

text \<open>
  C1, as amended. The four enrichment handlers do not treat failures alike.
  The resume handler with a file always answers 200 with a payload that has its eight
  members and a source tag among app.py, groq-fallback, basic-fallback and upload-only.
  The marks handler with a file always answers 200: either its success payload with
  subjects, totalPercentage, cgpa and semester, or, among others when app.py or the
  LLM cannot be reached, the payload of its catch block with \<open>success: false\<close>.
  The soft-skills handler absorbs extraction and parse errors only: for a valid request
  (five responses, none null) a reply of the LLM always gives 200 with a payload whose
  eight members are populated, and a rejected call to the LLM gives the 500 of its
  catch block. The profile handler absorbs nothing: for a student that is found it
  answers 200 exactly when the LLM replies, the extracted text parses to a value other
  than null and the save succeeds, and 500 otherwise.
\<close>

theorem enrichment_failures_by_endpoint:
  "status (fst (analyzeResume parse health appPy groqS groqF f (Some fl))) = 200
   \<and> hasMembers (body (fst (analyzeResume parse health appPy groqS groqF f (Some fl)))) resumeKeys
   \<and> sourceOf (body (fst (analyzeResume parse health appPy groqS groqF f (Some fl))))
       \<in> {Some (JStr ''app.py''), Some (JStr ''groq-fallback''), Some (JStr ''basic-fallback''),
          Some (JStr ''upload-only'')}
   \<and> status (fst (analyzeMarks parse pf pint appPy' groq f (Some fl))) = 200
   \<and> (fst (analyzeMarks parse pf pint appPy' groq f (Some fl)) = marksError
       \<or> optprop (Some (body (fst (analyzeMarks parse pf pint appPy' groq f (Some fl))))) ''success''
            = Some (JBool True)
          \<and> hasMembers (the (optprop (Some (body (fst (analyzeMarks parse pf pint appPy' groq f (Some fl)))))
                                ''data'')) marksKeys)
   \<and> (appPy' = None \<or> groq = GroqFails \<longrightarrow>
         fst (analyzeMarks parse pf pint appPy' groq f (Some fl)) = marksError)
   \<and> (getprop reqBody ''responses'' = Inr (Some (JArr xs)) \<and> length xs = 5 \<and> JNull \<notin> set xs \<longrightarrow>
         softSkillsAnalyze parse now GroqFails findOk saveOk d reqBody
           = (softSkillsError TransportError, d, [CallGroq])
         \<and> fst (softSkillsAnalyze parse now (GroqReplies c) findOk saveOk d reqBody) =
             \<lparr>status = 200,
              body = JObj [(''success'', JBool True),
                           (''data'', softSkillsData parse now (formattedResponses xs)
                                        (jsonContent (contentOr c []))),
                           (''message'', JStr ''Soft skills assessment completed successfully'')]\<rparr>
         \<and> populated (softSkillsData parse now (formattedResponses xs)
                        (jsonContent (contentOr c []))) softSkillsKeys)
   \<and> (findOk \<and> findOneByUsn d (toUpperCase u) = Some st \<longrightarrow>
         status (fst (analyzeStudent parse groq findOk saveOk d u)) =
           (if (\<exists>c. groq = GroqReplies c \<and> \<not> parseFails parse (jsonContentProfile (contentOr c [])))
               \<and> saveOk
            then 200 else 500))"
proof (intro conjI impI)
  show "status (fst (analyzeResume parse health appPy groqS groqF f (Some fl))) = 200"
    and "hasMembers (body (fst (analyzeResume parse health appPy groqS groqF f (Some fl)))) resumeKeys"
    and "sourceOf (body (fst (analyzeResume parse health appPy groqS groqF f (Some fl))))
       \<in> {Some (JStr ''app.py''), Some (JStr ''groq-fallback''), Some (JStr ''basic-fallback''),
          Some (JStr ''upload-only'')}"
    using resume_total [of parse health appPy groqS groqF f fl] by simp_all
  show "status (fst (analyzeMarks parse pf pint appPy' groq f (Some fl))) = 200"
    using analyzeMarks_cases [of parse pf pint appPy' groq f fl] marksError_status by auto
  show "fst (analyzeMarks parse pf pint appPy' groq f (Some fl)) = marksError
       \<or> optprop (Some (body (fst (analyzeMarks parse pf pint appPy' groq f (Some fl))))) ''success''
            = Some (JBool True)
          \<and> hasMembers (the (optprop (Some (body (fst (analyzeMarks parse pf pint appPy' groq f (Some fl)))))
                                ''data'')) marksKeys"
    using analyzeMarks_cases [of parse pf pint appPy' groq f fl] by blast
  show "fst (analyzeMarks parse pf pint appPy' groq f (Some fl)) = marksError"
    if "appPy' = None \<or> groq = GroqFails"
    using that by (rule analyzeMarks_transport)
next
  assume a: "getprop reqBody ''responses'' = Inr (Some (JArr xs)) \<and> length xs = 5 \<and> JNull \<notin> set xs"
  then have r: "getprop reqBody ''responses'' = Inr (Some (JArr xs))" and l: "length xs = 5"
    and n: "JNull \<notin> set xs" by simp_all
  show "softSkillsAnalyze parse now GroqFails findOk saveOk d reqBody
           = (softSkillsError TransportError, d, [CallGroq])"
    using softSkills_valid(1) [OF r l n] .
  show "fst (softSkillsAnalyze parse now (GroqReplies c) findOk saveOk d reqBody) =
             \<lparr>status = 200,
              body = JObj [(''success'', JBool True),
                           (''data'', softSkillsData parse now (formattedResponses xs)
                                        (jsonContent (contentOr c []))),
                           (''message'', JStr ''Soft skills assessment completed successfully'')]\<rparr>"
    using softSkills_valid(2) [OF r l n] .
  show "populated (softSkillsData parse now (formattedResponses xs)
                        (jsonContent (contentOr c []))) softSkillsKeys"
    using softSkillsData_populated by blast
next
  assume "findOk \<and> findOneByUsn d (toUpperCase u) = Some st"
  then show "status (fst (analyzeStudent parse groq findOk saveOk d u)) =
           (if (\<exists>c. groq = GroqReplies c \<and> \<not> parseFails parse (jsonContentProfile (contentOr c [])))
               \<and> saveOk
            then 200 else 500)"
    using analyzeStudent_status [of findOk d u st parse groq saveOk] by blast
qed

text \<open>The claim as stated fails: a rejected call to the LLM makes the soft-skills
  handler answer 500, and a prose reply makes the profile handler answer 500.\<close>

theorem softSkills_transport_error_counterexample:
  "status (fst (softSkillsAnalyze JSON_parse ''2025-01-01T00:00:00.000Z'' GroqFails True True []
             exampleAnswers)) = 500
   \<and> JSON_parse (jsonContentProfile ''The student is doing well.'') = None
   \<and> status (fst (analyzeStudent JSON_parse (GroqReplies (Some ''The student is doing well.''))
                     True True exampleStudents ''1rv20cs001'')) = 500"
  by code_simp

theorem enrichment_failures_by_endpoint_witness:
  "status (fst (analyzeResume JSON_parse None None GroqFails GroqFails exampleFiles
                  (Some exampleUpload))) = 200
   \<and> fst (analyzeMarks JSON_parse (\<lambda>x. NaN) (\<lambda>x. NaN) None GroqFails exampleFiles
            (Some exampleUpload)) = marksError
   \<and> softSkillsAnalyze JSON_parse ''2025-01-01T00:00:00.000Z'' GroqFails True True exampleStudents
         exampleAnswers
       = (softSkillsError TransportError, exampleStudents, [CallGroq])
   \<and> status (fst (softSkillsAnalyze JSON_parse ''2025-01-01T00:00:00.000Z''
         (GroqReplies (Some ''The student is doing well.'')) True True exampleStudents
         exampleAnswers)) = 200
   \<and> status (fst (analyzeStudent JSON_parse GroqFails True True exampleStudents ''1rv20cs001'')) = 500
   \<and> status (fst (analyzeStudent JSON_parse (GroqReplies (Some ''{\"overallScore\": 80}''))
         True True exampleStudents ''1rv20cs001'')) = 200"
proof -
  have s: "findOneByUsn exampleStudents (toUpperCase ''1rv20cs001'') = Some (hd exampleStudents)"
    by code_simp
  have p: "\<not> parseFails JSON_parse (jsonContentProfile (contentOr (Some ''{\"overallScore\": 80}'') []))"
    by code_simp
  from enrichment_failures_by_endpoint
    [where parse = JSON_parse and health = None and appPy = None and groqS = GroqFails
       and groqF = GroqFails and f = exampleFiles and fl = exampleUpload
       and pf = "\<lambda>x. NaN" and pint = "\<lambda>x. NaN" and appPy' = None and groq = GroqFails
       and reqBody = exampleAnswers
       and xs = "[JObj [(''answer'', JStr ''We rebuilt the parser.'')],
           JObj [(''answer'', JStr ''I listened first.'')],
           JObj [(''answer'', JStr ''I read the manual.'')],
           JObj [(''answer'', JStr ''I organised the demo.'')],
           JObj [(''answer'', JStr ''I rewrote the report.'')]]"
       and now = "''2025-01-01T00:00:00.000Z''" and findOk = True and saveOk = True
       and d = exampleStudents and u = "''1rv20cs001''" and st = "hd exampleStudents"
       and c = "Some ''The student is doing well.''"]
    enrichment_failures_by_endpoint
    [where parse = JSON_parse and health = None and appPy = None and groqS = GroqFails
       and groqF = GroqFails and f = exampleFiles and fl = exampleUpload
       and pf = "\<lambda>x. NaN" and pint = "\<lambda>x. NaN" and appPy' = None
       and groq = "GroqReplies (Some ''{\"overallScore\": 80}'')"
       and reqBody = exampleAnswers
       and xs = "[JObj [(''answer'', JStr ''We rebuilt the parser.'')],
           JObj [(''answer'', JStr ''I listened first.'')],
           JObj [(''answer'', JStr ''I read the manual.'')],
           JObj [(''answer'', JStr ''I organised the demo.'')],
           JObj [(''answer'', JStr ''I rewrote the report.'')]]"
       and now = "''2025-01-01T00:00:00.000Z''" and findOk = True and saveOk = True
       and d = exampleStudents and u = "''1rv20cs001''" and st = "hd exampleStudents"
       and c = "Some ''The student is doing well.''"]
    exampleAnswers_valid s p
  show ?thesis by simp
qed

section \<open>Extraction and serialization\<close>

lemma fencedMatch_no_backtick: "CHR 0x60 \<notin> set s \<Longrightarrow> fencedMatch s = None"
  by (induction s) auto

lemma indexOf_absent: "x \<notin> set s \<Longrightarrow> indexOf s x = -1"
  by (induction s) (auto simp: Let_def)

lemma lastIndexOf_absent: "x \<notin> set s \<Longrightarrow> lastIndexOf s x = -1"
  by (induction s) (auto simp: Let_def)

lemma indexOf_range: "- 1 \<le> indexOf s x"
  by (induction s) (auto simp: Let_def)

lemma lastIndexOf_snoc: "lastIndexOf (s @ [x]) x = int (length s)"
  by (induction s) (auto simp: Let_def)

lemma jsonContent_no_braces:
  assumes "CHR 0x60 \<notin> set s" and "CHR ''{'' \<notin> set s \<or> CHR ''}'' \<notin> set s"
  shows "jsonContent s = s"
  using assms(2) indexOf_range [of s "CHR ''{''"]
  by (auto simp: jsonContent_def fencedMatch_no_backtick [OF assms(1)] indexOf_absent
        lastIndexOf_absent Let_def)

lemma jsonContent_object:
  assumes "CHR 0x60 \<notin> set s" and "s \<noteq> []" and "hd s = CHR ''{''" and "last s = CHR ''}''"
  shows "jsonContent s = s"
proof -
  from assms(2,3) obtain r where r: "s = CHR ''{'' # r" by (cases s) auto
  with assms(4) have "r \<noteq> []" by auto
  with r assms(4) obtain m where m: "s = (CHR ''{'' # m) @ [CHR ''}'']"
    by (metis append_Cons append_butlast_last_id last_ConsR)
  have i: "indexOf s (CHR ''{'') = 0" by (simp add: r)
  have l: "lastIndexOf s (CHR ''}'') = int (length s) - 1"
    using lastIndexOf_snoc [of "CHR ''{'' # m" "CHR ''}''"] m by simp
  show ?thesis
    by (simp add: jsonContent_def fencedMatch_no_backtick [OF assms(1)] i l slice_def Let_def)
qed

lemma not_closes:
  assumes "CHR 0x60 \<notin> set t" and "t \<noteq> []"
  shows "\<not> closes (t @ CHR 0x0A # ''```'')"
proof -
  from assms(2) obtain c r where t: "t = c # r" by (cases t) auto
  show ?thesis
  proof (cases r)
    case Nil
    with t assms(1) show ?thesis by (auto simp: closes_def)
  next
    case (Cons c' r')
    with t assms(1) show ?thesis by (auto simp: closes_def)
  qed
qed

lemma lazyBody_fence:
  "s \<noteq> [] \<Longrightarrow> CHR 0x60 \<notin> set s \<Longrightarrow> lazyBody (s @ CHR 0x0A # ''```'') = Some s"
proof (induction s)
  case Nil
  then show ?case by simp
next
  case (Cons c r)
  show ?case
  proof (cases "r = []")
    case True
    then show ?thesis by (simp add: closes_def)
  next
    case False
    with Cons.prems have "\<not> closes (r @ CHR 0x0A # ''```'')" using not_closes [of r] by simp
    moreover from Cons False have "lazyBody (r @ CHR 0x0A # ''```'') = Some r" by simp
    ultimately show ?thesis by simp
  qed
qed

lemma isSpace_LF: "isSpace (CHR 0x0A)"
  by (simp add: isSpace_def)

lemma not_isSpace_j: "\<not> isSpace (CHR ''j'')"
  by (simp add: isSpace_def)

lemma jsonContent_fence:
  assumes "s \<noteq> []" and "\<not> isSpace (hd s)" and "CHR 0x60 \<notin> set s"
  shows "jsonContent (fence s) = s"
proof -
  from assms(1) obtain c r where s: "s = c # r" by (cases s) auto
  with assms(2) have c: "\<not> isSpace c" "c \<noteq> CHR 0x0A" using isSpace_LF by auto
  have l: "lazyBody (c # r @ CHR 0x0A # ''```'') = Some (c # r)"
    using lazyBody_fence [OF assms(1,3)] s by simp
  have o: "optNl (c # r @ CHR 0x0A # ''```'') = Some (c # r)"
    using c l by (simp add: optNl_def)
  have sp: "spaceStar optNl (CHR 0x0A # c # r @ CHR 0x0A # ''```'') = Some (c # r)"
    using c o isSpace_LF by simp
  have "fenceAt (''json'' @ CHR 0x0A # c # r @ CHR 0x0A # ''```'') = Some (c # r)"
    using sp not_isSpace_j by (simp add: fenceAt_def optJson_def)
  then have "fencedMatch (fence s) = Some s"
    by (simp add: fence_def s)
  then show ?thesis by (simp add: jsonContent_def)
qed

text \<open>
  C4, as amended. Let \<open>s\<close> be a JSON text of the value \<open>v\<close> (JSON.parse gives \<open>v\<close> on
  it) that is not empty, does not begin with white space and contains no backtick, and
  that either lacks one of the two braces or begins with \<open>{\<close> and ends with \<open>}\<close> (as
  the serialization of an object does). Then extraction from \<open>s\<close> and from the fenced
  \<open>s\<close> both yield \<open>v\<close>. For other texts the round trip can fail.
\<close>

theorem extraction_roundtrip:
  assumes "parse s = Some v" and "CHR 0x60 \<notin> set s" and "s \<noteq> []" and "\<not> isSpace (hd s)"
    and "CHR ''{'' \<notin> set s \<or> CHR ''}'' \<notin> set s \<or> (hd s = CHR ''{'' \<and> last s = CHR ''}'')"
  shows "parse (jsonContent s) = Some v \<and> parse (jsonContent (fence s)) = Some v"
proof -
  have "jsonContent s = s"
    using assms(5) jsonContent_no_braces [OF assms(2)] jsonContent_object [OF assms(2,3)] by blast
  moreover have "jsonContent (fence s) = s" using jsonContent_fence [OF assms(3,4,2)] .
  ultimately show ?thesis using assms(1) by simp
qed

text \<open>The claim as stated fails. The serialization of an array with an object in it
  is cut down to the object; the serialization of a string with backticks in it is
  taken for a fenced block, plain and fenced alike.\<close>

theorem extraction_roundtrip_counterexample:
  "JSON_parse ''[{\"a\":1}]'' = Some (JArr [JObj [(''a'', JNum 1)]])
   \<and> JSON_parse (jsonContent ''[{\"a\":1}]'') = Some (JObj [(''a'', JNum 1)])
   \<and> JSON_parse ''\"a```b```c\"'' = Some (JStr ''a```b```c'')
   \<and> JSON_parse (jsonContent ''\"a```b```c\"'') = None
   \<and> JSON_parse (jsonContent (fence ''\"a```b```c\"'')) = None"
  by code_simp

theorem extraction_roundtrip_witness:
  "JSON_parse (jsonContent ''{\"overallSoftSkillsScore\":85,\"strengths\":[\"focus\"]}'')
     = Some (JObj [(''overallSoftSkillsScore'', JNum 85), (''strengths'', JArr [JStr ''focus''])])
   \<and> JSON_parse (jsonContent (fence ''{\"overallSoftSkillsScore\":85,\"strengths\":[\"focus\"]}''))
     = Some (JObj [(''overallSoftSkillsScore'', JNum 85), (''strengths'', JArr [JStr ''focus''])])"
proof -
  have p: "JSON_parse ''{\"overallSoftSkillsScore\":85,\"strengths\":[\"focus\"]}''
     = Some (JObj [(''overallSoftSkillsScore'', JNum 85), (''strengths'', JArr [JStr ''focus''])])"
    by code_simp
  from extraction_roundtrip
         [of JSON_parse "''{\"overallSoftSkillsScore\":85,\"strengths\":[\"focus\"]}''"
             "JObj [(''overallSoftSkillsScore'', JNum 85), (''strengths'', JArr [JStr ''focus''])]"] p
  show ?thesis by (simp add: isSpace_def)
qed

text \<open>The three strategies, and where the profile handler has two: with a fenced
  block both extractions give its content; without one, a reply with a \<open>{\<close> and a
  later \<open>}\<close> is cut to the text between the first and the last of them by all call
  sites but the profile handler's, which takes the whole reply; any other reply is
  taken whole by both.\<close>

lemma indexOf_first: "x \<notin> set a \<Longrightarrow> indexOf (a @ x # r) x = int (length a)"
  by (induction a) (auto simp: Let_def)

lemma lastIndexOf_last: "x \<notin> set z \<Longrightarrow> lastIndexOf (r @ x # z) x = int (length r)"
  by (induction r) (auto simp: Let_def lastIndexOf_absent)

lemma jsonContent_fenced:
  "fencedMatch content = Some m \<Longrightarrow> jsonContent content = m \<and> jsonContentProfile content = m"
  by (simp add: jsonContent_def jsonContentProfile_def)

lemma jsonContent_brace_slice:
  assumes nf: "fencedMatch content = None"
    and c: "content = a @ CHR ''{'' # b @ CHR ''}'' # z"
    and a: "CHR ''{'' \<notin> set a" and z: "CHR ''}'' \<notin> set z"
  shows "jsonContent content = CHR ''{'' # b @ ''}'' \<and> jsonContentProfile content = content"
proof -
  have i: "indexOf content (CHR ''{'') = int (length a)"
    unfolding c using indexOf_first [OF a] by simp
  have "lastIndexOf ((a @ CHR ''{'' # b) @ CHR ''}'' # z) (CHR ''}'') = int (length (a @ CHR ''{'' # b))"
    using z by (rule lastIndexOf_last)
  then have l: "lastIndexOf content (CHR ''}'') = int (length a) + int (length b) + 1"
    unfolding c by simp
  have n: "nat (2 + int (length b)) = Suc (Suc (length b))" by simp
  have "slice content (int (length a)) (int (length a) + int (length b) + 1 + 1) = CHR ''{'' # b @ ''}''"
    unfolding c by (simp add: slice_def n)
  then show ?thesis
    by (simp add: jsonContent_def jsonContentProfile_def nf i l Let_def)
qed

lemma jsonContent_verbatim:
  assumes nf: "fencedMatch content = None"
    and "CHR ''{'' \<notin> set content \<or>
         (\<exists>a r. content = a @ CHR ''{'' # r \<and> CHR ''{'' \<notin> set a \<and> CHR ''}'' \<notin> set r)"
  shows "jsonContent content = content \<and> jsonContentProfile content = content"
proof -
  have "jsonContent content = content"
    using assms(2)
  proof (elim disjE exE conjE)
    assume "CHR ''{'' \<notin> set content"
    then show ?thesis by (simp add: jsonContent_def nf indexOf_absent Let_def)
  next
    fix a r
    assume c: "content = a @ CHR ''{'' # r" and a: "CHR ''{'' \<notin> set a" and r: "CHR ''}'' \<notin> set r"
    have i: "indexOf content (CHR ''{'') = int (length a)"
      unfolding c using indexOf_first [OF a] by simp
    have "lastIndexOf content (CHR ''}'') + 1 \<le> int (length a)"
    proof (cases "CHR ''}'' \<in> set a")
      case False
      with r have "CHR ''}'' \<notin> set content" unfolding c by simp
      then show ?thesis by (simp add: lastIndexOf_absent)
    next
      case True
      then obtain p q where pq: "a = p @ CHR ''}'' # q" "CHR ''}'' \<notin> set q"
        by (meson split_list_last)
      have "CHR ''}'' \<notin> set (q @ CHR ''{'' # r)" using pq(2) r by simp
      from lastIndexOf_last [OF this, of p]
      have "lastIndexOf content (CHR ''}'') = int (length p)" unfolding c pq(1) by simp
      then show ?thesis using pq(1) by simp
    qed
    then show ?thesis by (simp add: jsonContent_def nf i Let_def)
  qed
  then show ?thesis by (simp add: jsonContentProfile_def nf)
qed

text \<open>
  C3. The extraction of the profile handler (lines 779-780) has no second strategy: with
  no fenced block it takes the whole reply, where the four other call sites cut from
  the first \<open>{\<close> to the last \<open>}\<close>. On a reply that wraps its JSON in prose the other
  sites extract the object; the profile handler parses the whole reply, fails, and
  answers 500, while the object alone would have been accepted.
\<close>

theorem profile_extraction_skips_brace_slice:
  "jsonContent ''Here is the analysis: {\"overallScore\": 80} Hope it helps.'' = ''{\"overallScore\": 80}''
   \<and> jsonContentProfile ''Here is the analysis: {\"overallScore\": 80} Hope it helps.''
       = ''Here is the analysis: {\"overallScore\": 80} Hope it helps.''
   \<and> JSON_parse ''{\"overallScore\": 80}'' = Some (JObj [(''overallScore'', JNum 80)])
   \<and> JSON_parse ''Here is the analysis: {\"overallScore\": 80} Hope it helps.'' = None
   \<and> status (fst (analyzeStudent JSON_parse
         (GroqReplies (Some ''Here is the analysis: {\"overallScore\": 80} Hope it helps.''))
         True True exampleStudents ''1rv20cs001'')) = 500
   \<and> status (fst (analyzeStudent JSON_parse (GroqReplies (Some ''{\"overallScore\": 80}''))
         True True exampleStudents ''1rv20cs001'')) = 200"
  by code_simp

section \<open>The letter case of a stored USN\<close>

lemma toUpperChar_idem: "toUpperChar (toUpperChar c) = toUpperChar c"
  unfolding toUpperChar_def
  by (auto simp: less_eq_char_def)

lemma toUpperCase_idem: "toUpperCase (toUpperCase s) = toUpperCase s"
  by (simp add: toUpperCase_def toUpperChar_idem)

lemma toUpperCase_Nil_iff: "toUpperCase s = [] \<longleftrightarrow> s = []"
  by (simp add: toUpperCase_def)

text \<open>The lookups by USN query with the uppercased argument (lines 393 and 707): the
  answer is 404 exactly when no stored USN equals it, and two spellings of one USN get
  the same answer.\<close>

lemma getStudentByUsn_query:
  "getStudentByUsn m True d u =
     (case findOneByUsn d (toUpperCase u) of
        None \<Rightarrow> \<lparr>status = 404, body = errorBody ''Student not found''\<rparr>
      | Some st \<Rightarrow> \<lparr>status = 200, body = toJSON m st\<rparr>)"
  by (simp add: getStudentByUsn_def)

lemma analyzeStudent_query:
  "(status (fst (analyzeStudent parse groq True saveOk d u)) = 404)
     = (findOneByUsn d (toUpperCase u) = None)"
  by (auto simp: analyzeStudent_def Let_def split: option.splits groqOutcome.splits sum.splits)

lemma lookup_case_insensitive:
  assumes "toUpperCase u' = toUpperCase u"
  shows "getStudentByUsn m findOk d u' = getStudentByUsn m findOk d u
         \<and> analyzeStudent parse groq findOk saveOk d u' = analyzeStudent parse groq findOk saveOk d u"
  using assms by (simp add: getStudentByUsn_def analyzeStudent_def)

text \<open>A non-empty string given as the member \<open>usn\<close> of the body is uppercased
  before it is stored; a student created so is found under every spelling of the
  USN.\<close>

lemma normalizeUsn_string:
  assumes "getprop b ''usn'' = Inr (Some (JStr s))" and "s \<noteq> []"
  shows "\<exists>b'. normalizeUsn b = Inr b' \<and> optprop (Some b') ''usn'' = Some (JStr (toUpperCase s))"
proof -
  obtain kvs where b: "b = JObj kvs"
    using assms(1) by (cases b) simp_all
  show ?thesis
    using assms by (simp add: normalizeUsn_def b setprop_def)
qed

lemma find_append_new:
  "find P d = None \<Longrightarrow> P x \<Longrightarrow> find P (d @ [x]) = Some x"
  by (induction d) (auto split: if_splits)

lemma create_string_usn:
  assumes u: "getprop reqBody ''usn'' = Inr (Some (JStr s))" and s: "s \<noteq> []"
    and ok: "status (fst (createStudent m newId findOk saveOk d reqBody)) = 201"
  shows "\<exists>st. snd (createStudent m newId findOk saveOk d reqBody) = d @ [st]
              \<and> usn st = toUpperCase s \<and> isUpperCase (usn st)
              \<and> findOneByUsn d (toUpperCase s) = None
              \<and> (\<forall>u'. toUpperCase u' = toUpperCase s \<longrightarrow>
                    getStudentByUsn m True (snd (createStudent m newId findOk saveOk d reqBody)) u'
                      = \<lparr>status = 200, body = toJSON m st\<rparr>)"
proof -
  obtain b' where b': "normalizeUsn reqBody = Inr b'"
    "optprop (Some b') ''usn'' = Some (JStr (toUpperCase s))"
    using normalizeUsn_string [OF u s] by blast
  have c: "castString m (Some (JStr (toUpperCase s))) = Inr (Some (toUpperCase s))"
    by (simp add: castString_def)
  have n: "findOneByUsn d (toUpperCase s) = None"
    using ok by (auto simp: createStudent_def b' c validationError_def split: if_splits)
  let ?st = "\<lparr>sid = newId, usn = toUpperCase s, doc = b',
                softSkillsAssessment = None, analysis = None\<rparr>"
  have r: "snd (createStudent m newId findOk saveOk d reqBody) = d @ [?st]"
    using ok by (auto simp: createStudent_def b' c validationError_def Let_def split: if_splits)
  have f: "findOneByUsn (d @ [?st]) (toUpperCase s) = Some ?st"
    using n unfolding findOneByUsn_def by (intro find_append_new) simp_all
  show ?thesis
    using r n f by (auto simp: isUpperCase_def toUpperCase_idem getStudentByUsn_def)
qed

text \<open>The duplicate check of line 413 queries with the uppercased USN as well.\<close>

lemma create_duplicate_check:
  assumes u: "getprop reqBody ''usn'' = Inr (Some (JStr s))" and s: "s \<noteq> []"
  shows "(fst (createStudent m newId True saveOk d reqBody)
            = \<lparr>status = 400, body = errorBody ''Student with this USN already exists''\<rparr>)
         = (findOneByUsn d (toUpperCase s) \<noteq> None)"
proof -
  obtain b' where b': "normalizeUsn reqBody = Inr b'"
    "optprop (Some b') ''usn'' = Some (JStr (toUpperCase s))"
    using normalizeUsn_string [OF u s] by blast
  have c: "castString m (Some (JStr (toUpperCase s))) = Inr (Some (toUpperCase s))"
    by (simp add: castString_def)
  show ?thesis
    by (auto simp: createStudent_def b' c validationError_def errorBody_def Let_def
          split: if_splits)
qed

text \<open>The update handler, for a body without \<open>$set\<close>.\<close>

lemma updateFields_usn:
  assumes "optprop (Some (JObj kvs)) ''$set'' = None"
  shows "map_of (rev (updateFields (JObj kvs))) ''usn'' = map_of (rev kvs) ''usn''"
proof -
  have "map_of (rev (filter (\<lambda>kv. \<not> isOperator (fst kv)) kvs)) ''usn'' = map_of (rev kvs) ''usn''"
  proof (induction kvs rule: rev_induct)
    case Nil
    then show ?case by simp
  next
    case (snoc x xs)
    then show ?case by (cases x) (auto simp: isOperator_def)
  qed
  then show ?thesis using assms by (simp add: updateFields_def)
qed

lemma update_string_usn:
  assumes u: "getprop reqBody ''usn'' = Inr (Some (JStr s))" and s: "s \<noteq> []"
    and op: "optprop (Some reqBody) ''$set'' = None"
    and ok: "status (fst (updateStudent m dbOk d i reqBody)) = 200"
  shows "\<exists>st. findById d i = Some st
              \<and> snd (updateStudent m dbOk d i reqBody)
                  = saveStudent d (st\<lparr>usn := toUpperCase s,
                                      doc := JObj (fieldsOf (doc st)
                                                   @ updateFields (setprop reqBody ''usn'' (JStr (toUpperCase s))))\<rparr>)"
proof -
  obtain kvs where b: "reqBody = JObj kvs"
    using u by (cases reqBody) simp_all
  have n: "normalizeUsn (JObj kvs) = Inr (JObj (kvs @ [(''usn'', JStr (toUpperCase s))]))"
    using u s by (simp add: normalizeUsn_def b setprop_def)
  have o: "optprop (Some (JObj (kvs @ [(''usn'', JStr (toUpperCase s))]))) ''$set'' = None"
    using op by (simp add: b)
  have v: "map_of (rev (updateFields (JObj (kvs @ [(''usn'', JStr (toUpperCase s))])))) ''usn''
             = Some (JStr (toUpperCase s))"
    using updateFields_usn [OF o] by simp
  have c: "castString m (Some (JStr (toUpperCase s))) = Inr (Some (toUpperCase s))"
    by (simp add: castString_def)
  show ?thesis
    using ok unfolding b
    by (auto simp: updateStudent_def n v c Let_def validationError_def setprop_def
          split: if_splits option.splits)
qed

text \<open>
  C10. The guard of lines 409-411 and 439-441 uppercases what it finds under \<open>usn\<close> at
  the top of the body, and only if that is truthy. The body of the update is handed to
  \<open>findByIdAndUpdate\<close> as it came (line 445): with the USN under the operator \<open>$set\<close> the
  guard sees no \<open>usn\<close>, and the USN is stored as it was spelled. The student that
  GET /api/students/usn/1rv20cs001 found before the update is then found under no
  spelling, since the lookups query in uppercase; the same update with the USN at the
  top of the body stores it in uppercase. The guard of the create handler lets a falsy
  \<open>usn\<close> pass: \<open>false\<close> is stored as the string the String cast makes of it.
\<close>

theorem usn_guard_bypassed:
  "status (fst (updateStudent exampleMongoose True exampleStudents ''65f0c0ffee0123456789abcd''
             (JObj [(''$set'', JObj [(''usn'', JStr ''1rv20cs001'')])]))) = 200
   \<and> map usn (snd (updateStudent exampleMongoose True exampleStudents ''65f0c0ffee0123456789abcd''
             (JObj [(''$set'', JObj [(''usn'', JStr ''1rv20cs001'')])]))) = [''1rv20cs001'']
   \<and> toUpperCase ''1rv20cs001'' = ''1RV20CS001''
   \<and> status (getStudentByUsn exampleMongoose True exampleStudents ''1rv20cs001'') = 200
   \<and> status (getStudentByUsn exampleMongoose True
               (snd (updateStudent exampleMongoose True exampleStudents ''65f0c0ffee0123456789abcd''
                  (JObj [(''$set'', JObj [(''usn'', JStr ''1rv20cs001'')])])))
               ''1rv20cs001'') = 404
   \<and> map usn (snd (updateStudent exampleMongoose True exampleStudents ''65f0c0ffee0123456789abcd''
             (JObj [(''usn'', JStr ''1rv20cs002'')]))) = [''1RV20CS002'']
   \<and> status (fst (createStudent exampleMongoose ''65f0c0ffee0123456789abce'' True True exampleStudents
             (JObj [(''name'', JStr ''Ravi''), (''usn'', JBool False),
                    (''email'', JStr ''ravi@example.com''), (''semester'', JNum 3)]))) = 201
   \<and> map usn (snd (createStudent exampleMongoose ''65f0c0ffee0123456789abce'' True True exampleStudents
             (JObj [(''name'', JStr ''Ravi''), (''usn'', JBool False),
                    (''email'', JStr ''ravi@example.com''), (''semester'', JNum 3)]))) = [''1RV20CS001'', ''false'']"
  by code_simp

end
